theory Spec2Isabelle
  imports Complex_Main
begin

section \<open>Tables: the data model of gdsctools.readers\<close>

text \<open>
  The readers of \<^verbatim>\<open>gdsctools/readers.py\<close> keep one pandas dataframe per object, in the
  attribute \<^verbatim>\<open>df\<close>. A dataframe is modelled column by column, as pandas stores it: a
  row index (a list of labels, with an optional name) and the columns in order, each a
  label with its cells. Column labels may repeat, as pandas allows, so the columns are an
  association list and every access by label is written out.

  A column label is any hashable Python value. The source calls string methods on the
  labels, so a label is either a string or something else (a number, a tuple), kept as
  the text that pandas writes for it.

  A cell is missing (\<^verbatim>\<open>NaN\<close>), a number or a string. Numbers are exact rationals: the
  rounding of floating-point arithmetic is not part of the model.
\<close>

datatype cell = NaN | Num rat | Str string

datatype label = Label string | NonStr string

record dataframe =
  index_name :: "label option"
  index :: "cell list"
  columns :: "(label \<times> cell list) list"

text \<open>The exceptions that the modelled code raises.\<close>

datatype error =
    TypeError
  | KeyError
  | AssertionError
  | AttributeError
  | ValueError
  | IOError
  | EmptyDataError
  | DuplicateLabel

definition labels :: "dataframe \<Rightarrow> label list" where
  "labels d = map fst (columns d)"

text \<open>\<^verbatim>\<open>len(df)\<close>: the number of rows.\<close>

definition len :: "dataframe \<Rightarrow> nat" where
  "len d = length (index d)"

text \<open>Every column of a dataframe has one cell per row.\<close>

definition wf_frame :: "dataframe \<Rightarrow> bool" where
  "wf_frame d = list_all (\<lambda>c. length (snd c) = length (index d)) (columns d)"

text \<open>\<^verbatim>\<open>x.startswith(p)\<close> on Python strings.\<close>

definition startswith :: "string \<Rightarrow> string \<Rightarrow> bool" where
  "startswith x p = (take (length p) x = p)"

text \<open>
  The list comprehensions \<^verbatim>\<open>[x for x in df.columns if P(x)]\<close> of the constructors, where
  \<open>P\<close> calls \<^verbatim>\<open>x.startswith\<close>: a label that is not a string has no such method, and the
  comprehension raises \<^verbatim>\<open>AttributeError\<close> when it reaches one.
\<close>

fun select_labels :: "(string \<Rightarrow> bool) \<Rightarrow> label list \<Rightarrow> error + label list" where
  "select_labels P [] = Inr []"
| "select_labels P (Label x # ls) =
     (if P x
      then (case select_labels P ls of Inl e \<Rightarrow> Inl e | Inr r \<Rightarrow> Inr (Label x # r))
      else select_labels P ls)"
| "select_labels P (NonStr x # ls) = Inl AttributeError"

text \<open>The text that \<^verbatim>\<open>to_csv\<close> writes for a label.\<close>

fun label_text :: "label \<Rightarrow> string" where
  "label_text (Label x) = x"
| "label_text (NonStr x) = x"

subsection \<open>The pandas operations the readers call\<close>

text \<open>
  \<^verbatim>\<open>df[[l1, l2, ...]]\<close>: selection by a list of labels. Each label selects every column
  that carries it, in the order of the list; a label that no column carries raises
  \<^verbatim>\<open>KeyError\<close>.
\<close>

definition columns_of :: "(label \<times> cell list) list \<Rightarrow> label \<Rightarrow> (label \<times> cell list) list" where
  "columns_of cs l = filter (\<lambda>c. fst c = l) cs"

definition getitem_list :: "dataframe \<Rightarrow> label list \<Rightarrow> error + dataframe" where
  "getitem_list d ls =
     (if list_all (\<lambda>l. l \<in> set (labels d)) ls
      then Inr (d\<lparr>columns := concat (map (columns_of (columns d)) ls)\<rparr>)
      else Inl KeyError)"

text \<open>
  \<^verbatim>\<open>df.set_index(l, inplace=True)\<close>: the column labelled \<open>l\<close> becomes the row index and
  leaves the columns. A missing label raises \<^verbatim>\<open>KeyError\<close>. What pandas does when several
  columns carry the label depends on its version; the model stops there with
  \<open>DuplicateLabel\<close>. The constructors call it on what they read from a file only, whose
  header pandas makes distinct.
\<close>

definition set_index :: "dataframe \<Rightarrow> label \<Rightarrow> error + dataframe" where
  "set_index d l =
     (case columns_of (columns d) l of
        [] \<Rightarrow> Inl KeyError
      | [c] \<Rightarrow> Inr (d\<lparr>index_name := Some l, index := snd c,
                      columns := filter (\<lambda>c. fst c \<noteq> l) (columns d)\<rparr>)
      | _ \<Rightarrow> Inl DuplicateLabel)"

text \<open>\<^verbatim>\<open>df.copy()\<close>: a new dataframe with the same content.\<close>

definition copy :: "dataframe \<Rightarrow> dataframe" where
  "copy d = d"

subsection \<open>Files\<close>

text \<open>
  The text of a file and pandas' parser are outside the repository. A file is modelled by
  what \<^verbatim>\<open>pd.read_csv(filename, sep=sep)\<close> makes of it: the named columns in file order
  (\<open>None\<close> when the file cannot be opened or parsed). The names of a header are
  strings. The file system is a function of the file name and the separator, so nothing
  is assumed about reading a file with a separator other than the one it was written
  with. The conversion between the text of a field and its cell is taken to be faithful.
\<close>

type_synonym csv_table = "(string \<times> cell list) list"

type_synonym filesystem = "string \<Rightarrow> string \<Rightarrow> csv_table option"

definition nrows :: "csv_table \<Rightarrow> nat" where
  "nrows t = (case t of [] \<Rightarrow> 0 | c # _ \<Rightarrow> length (snd c))"

text \<open>
  A parsed file has distinct column names (pandas renames a repeated header field) and
  columns of one length.
\<close>

definition wf_table :: "csv_table \<Rightarrow> bool" where
  "wf_table t = (distinct (map fst t) \<and> list_all (\<lambda>c. length (snd c) = nrows t) t)"

text \<open>The columns of a parsed file as the columns of a dataframe.\<close>

definition frame_columns :: "csv_table \<Rightarrow> (label \<times> cell list) list" where
  "frame_columns t = map (\<lambda>c. (Label (fst c), snd c)) t"

text \<open>
  \<^verbatim>\<open>pd.read_csv\<close>: the rows are numbered from 0 and the index has no name. A file without
  a header line raises \<^verbatim>\<open>EmptyDataError\<close>.
\<close>

definition read_csv :: "filesystem \<Rightarrow> string \<Rightarrow> string \<Rightarrow> error + dataframe" where
  "read_csv fs filename s =
     (case fs filename s of
        None \<Rightarrow> Inl IOError
      | Some [] \<Rightarrow> Inl EmptyDataError
      | Some t \<Rightarrow> Inr \<lparr>index_name = None,
                       index = map (\<lambda>i. Num (of_nat i)) [0..<nrows t],
                       columns = frame_columns t\<rparr>)"

section \<open>The reader classes\<close>

text \<open>
  \<^verbatim>\<open>Reader.__init__\<close> stores the separator in \<^verbatim>\<open>_sep\<close>; the subclasses add \<^verbatim>\<open>df\<close>. The
  attribute \<^verbatim>\<open>_filename\<close> is read only by the constructor that sets it and is left out.
\<close>

record reader =
  sep :: string
  df :: dataframe

record ic50 = reader +
  rawdf :: "dataframe option"

record genomic_features = reader +
  col_tissue :: string
  col_sample :: string
  col_msi :: string

text \<open>
  What \<^verbatim>\<open>self.df\<close> of a \<^verbatim>\<open>GenomicFeatures\<close> object can hold before the constructor has
  checked anything: a dataframe or an object that presents one (\<open>Table\<close>), a pandas
  column with its row labels (\<open>Column\<close>), or an object without the attribute
  \<^verbatim>\<open>columns\<close> (\<open>Opaque\<close>).
\<close>

datatype pyval =
    Table dataframe
  | Column "cell list" "cell list"
  | Opaque

text \<open>
  What a constructor can receive. Python is dynamically typed, so the argument is any
  object. \<open>PyObject\<close> is an instance of any other class than the first five
  (\<^verbatim>\<open>PANCAN\<close>, a number, a list, a class of the caller), described by the two things
  that the constructors ask of an object: what \<^verbatim>\<open>x.df.copy()\<close> returns, if that call
  succeeds, and the table that \<open>x\<close> presents through \<^verbatim>\<open>x.columns\<close> and \<^verbatim>\<open>x[[...]]\<close>, if
  it has the attribute \<^verbatim>\<open>columns\<close>.
\<close>

datatype pyobj =
    PyNone
  | PyStr string
  | PyFrame dataframe
  | PyIC50 ic50
  | PyGenomicFeatures genomic_features
  | PyObject "pyval option" "dataframe option"

definition tab :: string where
  "tab = [CHR 0x09]"

subsection \<open>IC50\<close>

definition COSMIC_ID :: string where
  "COSMIC_ID = ''COSMIC ID''"

fun IC50_init :: "filesystem \<Rightarrow> pyobj \<Rightarrow> string \<Rightarrow> error + ic50" where
  "IC50_init fs (PyStr filename) s =
     (case read_csv fs filename s of
        Inl e \<Rightarrow> Inl e
      | Inr raw \<Rightarrow>
          (case select_labels (\<lambda>x. startswith x ''Drug'') (labels raw) of
             Inl e \<Rightarrow> Inl e
           | Inr drugs \<Rightarrow>
               (case getitem_list raw (Label COSMIC_ID # drugs) of
                  Inl e \<Rightarrow> Inl e
                | Inr d \<Rightarrow>
                    (case set_index (copy d) (Label COSMIC_ID) of
                       Inl e \<Rightarrow> Inl e
                     | Inr d' \<Rightarrow> Inr \<lparr>sep = s, df = d', rawdf = Some raw\<rparr>))))"
| "IC50_init fs (PyIC50 a) s = Inr \<lparr>sep = s, df = copy (df a), rawdf = None\<rparr>"
| "IC50_init fs (PyFrame d) s = Inr \<lparr>sep = s, df = copy d, rawdf = None\<rparr>"
| "IC50_init fs _ s = Inl TypeError"

text \<open>\<^verbatim>\<open>drugIds\<close>: the column labels of \<^verbatim>\<open>df\<close>.\<close>

definition drugIds :: "ic50 \<Rightarrow> label list" where
  "drugIds r = labels (df r)"

text \<open>\<^verbatim>\<open>cosmicIds\<close> of \<^verbatim>\<open>CosmicRows\<close>: the row labels of \<^verbatim>\<open>df\<close>.\<close>

definition cosmicIds :: "'a reader_scheme \<Rightarrow> cell list" where
  "cosmicIds r = index (df r)"

text \<open>
  \<^verbatim>\<open>IC50.__str__\<close> builds a text from three numbers; the model returns the numbers. The
  count of missing cells comes from pandas as a numpy integer, so the division by
  \<^verbatim>\<open>float(N)\<close> does not raise when \<open>N\<close> is 0: it gives no number (\<open>None\<close>).
\<close>

definition isnull :: "cell \<Rightarrow> bool" where
  "isnull c = (c = NaN)"

text \<open>\<^verbatim>\<open>df.isnull().sum().sum()\<close>: the missing cells of each column, summed over the columns.\<close>

definition isnull_sum_sum :: "dataframe \<Rightarrow> nat" where
  "isnull_sum_sum d = sum_list (map (\<lambda>c. length (filter isnull (snd c))) (columns d))"

record ic50_report =
  number_of_drugs :: nat
  number_of_cell_lines :: nat
  percentage_of_NA :: "rat option"

definition IC50_str :: "ic50 \<Rightarrow> ic50_report" where
  "IC50_str r =
     (let N = length (drugIds r) * len (df r);
          Nna = isnull_sum_sum (df r)
      in \<lparr>number_of_drugs = length (drugIds r),
          number_of_cell_lines = len (df r),
          percentage_of_NA = (if N = 0 then None else Some (of_nat Nna / of_nat N))\<rparr>)"

subsection \<open>Writing a table\<close>

text \<open>
  \<^verbatim>\<open>df.to_csv(filename, sep=sep)\<close> writes the index as the first column, under its name,
  then the columns, each label as its text. An index without a name is written with an
  empty header field, which pandas reads back as \<^verbatim>\<open>Unnamed: 0\<close>. When labels repeat
  among the index name and the columns, pandas renames them on reading; the model does
  not follow that renaming, and the theorems on written files ask for distinct labels.
\<close>

definition frame_to_csv :: "dataframe \<Rightarrow> csv_table" where
  "frame_to_csv d =
     ((case index_name d of None \<Rightarrow> ''Unnamed: 0'' | Some n \<Rightarrow> label_text n), index d)
       # map (\<lambda>c. (label_text (fst c), snd c)) (columns d)"

text \<open>
  \<^verbatim>\<open>Reader.to_csv\<close> only chooses the separator and calls pandas. The model returns what
  was written where; \<open>reads_back\<close> says that the file system holds it.
\<close>

record csv_write =
  w_filename :: string
  w_sep :: string
  w_table :: csv_table

definition to_csv :: "'a reader_scheme \<Rightarrow> string \<Rightarrow> string option \<Rightarrow> csv_write" where
  "to_csv r filename sep_arg =
     (let s = (case sep_arg of None \<Rightarrow> sep r | Some s' \<Rightarrow> s')
      in \<lparr>w_filename = filename, w_sep = s, w_table = frame_to_csv (df r)\<rparr>)"

definition reads_back :: "filesystem \<Rightarrow> csv_write \<Rightarrow> bool" where
  "reads_back fs w = (fs (w_filename w) (w_sep w) = Some (w_table w))"

subsection \<open>GenomicFeatures\<close>

definition TISSUE :: string where
  "TISSUE = ''Tissue Factor Value''"

definition SAMPLE :: string where
  "SAMPLE = ''Sample Name''"

definition MSI :: string where
  "MSI = ''MS-instability Factor Value''"

text \<open>
  The path that \<^verbatim>\<open>easydev.get_share_file('gdsctools', 'data', 'genomic_features.tsv')\<close>
  returns depends on the installation; a fixed name stands for it.
\<close>

definition share_file :: string where
  "share_file = ''gdsctools/data/genomic_features.tsv''"

text \<open>
  \<^verbatim>\<open>filename.df.copy()\<close> of line 226. The reader classes hold a dataframe in \<^verbatim>\<open>df\<close>. On
  a dataframe pandas resolves the attribute \<^verbatim>\<open>df\<close> to what carries the label \<^verbatim>\<open>df\<close>:
  one column, or the table of the columns when several carry it; without such a label
  the attribute is missing. \<^verbatim>\<open>None\<close> and a string have no such attribute. For another
  object it is what the object says.
\<close>

fun attr_df_copy :: "pyobj \<Rightarrow> error + pyval" where
  "attr_df_copy PyNone = Inl AttributeError"
| "attr_df_copy (PyStr x) = Inl AttributeError"
| "attr_df_copy (PyFrame d) =
     (case columns_of (columns d) (Label ''df'') of
        [] \<Rightarrow> Inl AttributeError
      | [c] \<Rightarrow> Inr (Column (index d) (snd c))
      | cs \<Rightarrow> Inr (Table (copy (d\<lparr>columns := cs\<rparr>))))"
| "attr_df_copy (PyIC50 a) = Inr (Table (copy (df a)))"
| "attr_df_copy (PyGenomicFeatures g) = Inr (Table (copy (df g)))"
| "attr_df_copy (PyObject v t) = (case v of None \<Rightarrow> Inl AttributeError | Some x \<Rightarrow> Inr x)"

text \<open>The argument itself as the value of \<^verbatim>\<open>self.df\<close> (line 229).\<close>

fun as_pyval :: "pyobj \<Rightarrow> pyval" where
  "as_pyval (PyFrame d) = Table d"
| "as_pyval (PyObject v (Some d)) = Table d"
| "as_pyval (PyIC50 a) = Opaque"
| "as_pyval (PyGenomicFeatures g) = Opaque"
| "as_pyval (PyObject v None) = Opaque"
| "as_pyval PyNone = Opaque"
| "as_pyval (PyStr x) = Opaque"

text \<open>
  Lines 224 to 229: \<^verbatim>\<open>self.df\<close> is the copy of the \<^verbatim>\<open>df\<close> attribute of the argument
  and, when anything fails on the way, the argument itself. There is no check of its
  type.
\<close>

definition self_df :: "pyobj \<Rightarrow> pyval" where
  "self_df filename = (case attr_df_copy filename of Inr v \<Rightarrow> v | Inl e \<Rightarrow> as_pyval filename)"

text \<open>
  Lines 232 to 244 when \<^verbatim>\<open>self.df\<close> is a pandas column with the row labels \<open>i\<close> and the
  cells \<open>c\<close>: they always raise. A column has the attribute \<^verbatim>\<open>columns\<close> only when a
  row is labelled \<^verbatim>\<open>columns\<close>, and then the attribute is what that label selects.
  \<^item> No such row: \<^verbatim>\<open>AttributeError\<close>.
  \<^item> One such row: its cell. A number cannot be iterated over (\<^verbatim>\<open>TypeError\<close>). A text
    is iterated over by character, no character starts with \<^verbatim>\<open>Drug_\<close>, and the column
    is indexed by the list of the characters: \<^verbatim>\<open>KeyError\<close> unless each is a row
    label; the selected rows have no label \<^verbatim>\<open>columns\<close>, hence \<^verbatim>\<open>AttributeError\<close> in
    line 243.
  \<^item> Several such rows: their cells are the iterated names. A cell that is not a text
    has no \<^verbatim>\<open>startswith\<close> (\<^verbatim>\<open>AttributeError\<close>). The column is indexed by the cells that
    do not start with \<^verbatim>\<open>Drug_\<close>: \<^verbatim>\<open>KeyError\<close> unless each is a row label. Line 243
    reads the attribute again: it is missing unless \<^verbatim>\<open>columns\<close> was among the selected
    labels, and then it is a column whose row labels are all \<^verbatim>\<open>columns\<close>, in which no
    compulsory name is found (\<^verbatim>\<open>AssertionError\<close>).
\<close>

definition series_loc :: "cell list \<Rightarrow> cell list \<Rightarrow> cell \<Rightarrow> cell list" where
  "series_loc i c l = map snd (filter (\<lambda>p. fst p = l) (zip i c))"

fun is_text :: "cell \<Rightarrow> bool" where
  "is_text (Str s) = True"
| "is_text _ = False"

fun cell_startswith :: "cell \<Rightarrow> string \<Rightarrow> bool" where
  "cell_startswith (Str s) p = startswith s p"
| "cell_startswith _ p = False"

definition column_error :: "cell list \<Rightarrow> cell list \<Rightarrow> error" where
  "column_error i c =
     (case series_loc i c (Str ''columns'') of
        [] \<Rightarrow> AttributeError
      | [NaN] \<Rightarrow> TypeError
      | [Num n] \<Rightarrow> TypeError
      | [Str s] \<Rightarrow>
          if list_all (\<lambda>ch. Str [ch] \<in> set i) s then AttributeError else KeyError
      | vs \<Rightarrow>
          if \<not> list_all is_text vs then AttributeError
          else let kept = filter (\<lambda>v. \<not> cell_startswith v ''Drug_'') vs
               in if \<not> list_all (\<lambda>v. v \<in> set i) kept then KeyError
                  else if Str ''columns'' \<in> set kept then AssertionError
                  else AttributeError)"

text \<open>
  Line 232 reads \<^verbatim>\<open>self.df.columns\<close> and line 233 indexes \<^verbatim>\<open>self.df\<close> by a list of
  labels: the table that \<^verbatim>\<open>self.df\<close> presents that way. An object without the attribute
  \<^verbatim>\<open>columns\<close> raises \<^verbatim>\<open>AttributeError\<close>.
\<close>

fun table_of :: "pyval \<Rightarrow> error + dataframe" where
  "table_of (Table d) = Inr d"
| "table_of (Column i c) = Inl (column_error i c)"
| "table_of Opaque = Inl AttributeError"

text \<open>
  Lines 218 to 229 of the constructor: where \<^verbatim>\<open>self.df\<close> comes from. A file is read with
  \<^verbatim>\<open>self._sep\<close>, which is always the tabulation, because the constructor does not pass its
  \<^verbatim>\<open>sep\<close> on to \<^verbatim>\<open>Reader.__init__\<close>.
\<close>

fun GenomicFeatures_load :: "filesystem \<Rightarrow> pyobj \<Rightarrow> error + dataframe" where
  "GenomicFeatures_load fs (PyStr filename) =
     (case read_csv fs filename tab of
        Inl e \<Rightarrow> Inl e
      | Inr d \<Rightarrow> if Label COSMIC_ID \<in> set (labels d) then set_index d (Label COSMIC_ID)
                else Inl AssertionError)"
| "GenomicFeatures_load fs filename = table_of (self_df filename)"

text \<open>The loop of assertions over the compulsory column names.\<close>

fun assert_columns :: "dataframe \<Rightarrow> string list \<Rightarrow> error + unit" where
  "assert_columns d [] = Inr ()"
| "assert_columns d (name # names) =
     (if Label name \<in> set (labels d) then assert_columns d names else Inl AssertionError)"

definition GenomicFeatures_init :: "filesystem \<Rightarrow> pyobj \<Rightarrow> string \<Rightarrow> error + genomic_features" where
  "GenomicFeatures_init fs filename sep_arg =
     (let filename' = (case filename of PyNone \<Rightarrow> PyStr share_file | _ \<Rightarrow> filename)
      in case GenomicFeatures_load fs filename' of
           Inl e \<Rightarrow> Inl e
         | Inr d \<Rightarrow>
             (case select_labels (\<lambda>x. \<not> startswith x ''Drug_'') (labels d) of
                Inl e \<Rightarrow> Inl e
              | Inr ls \<Rightarrow>
                  (case getitem_list d ls of
                     Inl e \<Rightarrow> Inl e
                   | Inr d' \<Rightarrow>
                       (case assert_columns d' [TISSUE, SAMPLE, MSI] of
                          Inl e \<Rightarrow> Inl e
                        | Inr _ \<Rightarrow> Inr \<lparr>sep = tab, df = d', col_tissue = TISSUE,
                                        col_sample = SAMPLE, col_msi = MSI\<rparr>))))"

text \<open>\<^verbatim>\<open>features\<close>: the column labels of \<^verbatim>\<open>df\<close>.\<close>

definition features :: "genomic_features \<Rightarrow> label list" where
  "features g = labels (df g)"

text \<open>
  \<^verbatim>\<open>df[l]\<close>: what carries the label \<open>l\<close>, a column or, when several columns carry it,
  the table of those columns. A label that no column carries raises \<^verbatim>\<open>KeyError\<close>.
\<close>

datatype selection = Series "cell list" | SubTable "(label \<times> cell list) list"

definition getitem :: "dataframe \<Rightarrow> label \<Rightarrow> error + selection" where
  "getitem d l =
     (case columns_of (columns d) l of
        [] \<Rightarrow> Inl KeyError
      | [c] \<Rightarrow> Inr (Series (snd c))
      | cs \<Rightarrow> Inr (SubTable cs))"

text \<open>\<^verbatim>\<open>easydev.to_list\<close>: a string becomes a list of one element, a list stays.\<close>

datatype tissues_arg = OneTissue string | TissueList "cell list"

fun to_list :: "tissues_arg \<Rightarrow> cell list" where
  "to_list (OneTissue t) = [Str t]"
| "to_list (TissueList ts) = ts"

text \<open>
  \<^verbatim>\<open>isin(values)\<close> and the comparison \<^verbatim>\<open>== False\<close> work cell by cell: on a column they
  give one truth value per row, on a table a table of truth values.
\<close>

datatype mask = Mask "bool list" | MaskTable "(label \<times> bool list) list"

fun isin :: "selection \<Rightarrow> cell list \<Rightarrow> mask" where
  "isin (Series col) vs = Mask (map (\<lambda>c. c \<in> set vs) col)"
| "isin (SubTable cs) vs = MaskTable (map (\<lambda>c. (fst c, map (\<lambda>x. x \<in> set vs) (snd c))) cs)"

fun eq_False :: "mask \<Rightarrow> mask" where
  "eq_False (Mask m) = Mask (map (\<lambda>b. b = False) m)"
| "eq_False (MaskTable t) = MaskTable (map (\<lambda>c. (fst c, map (\<lambda>b. b = False) (snd c))) t)"

text \<open>The rows of a list that a list of truth values selects.\<close>

definition select :: "bool list \<Rightarrow> 'a list \<Rightarrow> 'a list" where
  "select msk xs = map snd (filter fst (zip msk xs))"

text \<open>
  \<^verbatim>\<open>df[mask]\<close>. With one truth value per row it keeps the rows marked true. With a table
  of truth values it is \<^verbatim>\<open>df.where(mask)\<close>: no row goes, and a cell that the mask does
  not mark true becomes missing. When the labels of the mask are those of the dataframe
  the cells are matched by position; otherwise pandas matches the columns by label,
  which it refuses for a mask with a repeated label (\<^verbatim>\<open>ValueError\<close>: cannot reindex on
  an axis with duplicate labels). In no case does a table of truth values remove a row.
\<close>

definition where_cells :: "cell list \<Rightarrow> bool list \<Rightarrow> cell list" where
  "where_cells col m = map (\<lambda>p. if snd p then fst p else NaN) (zip col m)"

definition mask_rows :: "dataframe \<Rightarrow> bool list \<Rightarrow> dataframe" where
  "mask_rows d m =
     d\<lparr>index := select m (index d),
       columns := map (\<lambda>c. (fst c, select m (snd c))) (columns d)\<rparr>"

fun getitem_mask :: "dataframe \<Rightarrow> mask \<Rightarrow> error + dataframe" where
  "getitem_mask d (Mask m) = Inr (mask_rows d m)"
| "getitem_mask d (MaskTable t) =
     (if map fst t = labels d
      then Inr (d\<lparr>columns := map (\<lambda>p. (fst (fst p), where_cells (snd (fst p)) (snd (snd p))))
                                  (zip (columns d) t)\<rparr>)
      else if distinct (map fst t)
      then Inr (d\<lparr>columns := map (\<lambda>c. (fst c,
                                   (case map_of t (fst c) of
                                      None \<Rightarrow> map (\<lambda>x. NaN) (snd c)
                                    | Some m \<Rightarrow> where_cells (snd c) m))) (columns d)\<rparr>)
      else Inl ValueError)"

text \<open>
  \<^verbatim>\<open>view.sum()\<close>: the sum of each column, missing cells skipped, the sum of no cell
  being 0. What pandas does with a string among the summed cells depends on its version;
  the model raises \<^verbatim>\<open>TypeError\<close>.
\<close>

fun column_sum :: "cell list \<Rightarrow> error + rat" where
  "column_sum [] = Inr 0"
| "column_sum (NaN # cs) = column_sum cs"
| "column_sum (Num x # cs) = (case column_sum cs of Inl e \<Rightarrow> Inl e | Inr s \<Rightarrow> Inr (x + s))"
| "column_sum (Str _ # cs) = Inl TypeError"

fun frame_sum :: "(label \<times> cell list) list \<Rightarrow> error + rat list" where
  "frame_sum [] = Inr []"
| "frame_sum (c # cs) =
     (case column_sum (snd c) of
        Inl e \<Rightarrow> Inl e
      | Inr s \<Rightarrow> (case frame_sum cs of Inl e \<Rightarrow> Inl e | Inr ss \<Rightarrow> Inr (s # ss)))"

text \<open>\<^verbatim>\<open>df.drop(labels, axis=1, inplace=True)\<close>: every column with one of the labels goes
  (\<open>drop\<close> is the name of a list function of HOL).\<close>

definition drop_labels :: "dataframe \<Rightarrow> label list \<Rightarrow> error + dataframe" where
  "drop_labels d ls =
     (if list_all (\<lambda>l. l \<in> set (labels d)) ls
      then Inr (d\<lparr>columns := filter (\<lambda>c. fst c \<notin> set ls) (columns d)\<rparr>)
      else Inl KeyError)"

text \<open>
  The methods below change \<^verbatim>\<open>self.df\<close> and may raise: they return the object as the call
  leaves it, and the exception if there is one. An exception before the assignment of
  \<^verbatim>\<open>self.df\<close> leaves the table as it was; one in \<^verbatim>\<open>_cleanup\<close> leaves the rows already
  filtered.
\<close>

definition cleanup :: "genomic_features \<Rightarrow> rat \<Rightarrow> genomic_features \<times> error option" where
  "cleanup g required_features =
     (let to_ignore = [Label (col_tissue g), Label (col_msi g), Label (col_sample g)]
      in case getitem_list (df g) (filter (\<lambda>x. x \<notin> set to_ignore) (labels (df g))) of
           Inl e \<Rightarrow> (g, Some e)
         | Inr view \<Rightarrow>
             (case frame_sum (columns view) of
                Inl e \<Rightarrow> (g, Some e)
              | Inr totals \<Rightarrow>
                  (let todrop = map fst (filter (\<lambda>p. snd p \<le> required_features)
                                           (zip (labels view) totals))
                   in case drop_labels (df g) todrop of
                        Inl e \<Rightarrow> (g, Some e)
                      | Inr d \<Rightarrow> (g\<lparr>df := d\<rparr>, None))))"

definition drop_tissue_in :: "genomic_features \<Rightarrow> tissues_arg \<Rightarrow> genomic_features \<times> error option" where
  "drop_tissue_in g tissues_arg =
     (let ts = to_list tissues_arg
      in case getitem (df g) (Label (col_tissue g)) of
           Inl e \<Rightarrow> (g, Some e)
         | Inr col \<Rightarrow>
             (let msk = eq_False (isin col ts)
              in case getitem_mask (df g) msk of
                   Inl e \<Rightarrow> (g, Some e)
                 | Inr d \<Rightarrow> cleanup (g\<lparr>df := d\<rparr>) 0))"

definition keep_tissue_in :: "genomic_features \<Rightarrow> tissues_arg \<Rightarrow> genomic_features \<times> error option" where
  "keep_tissue_in g tissues_arg =
     (let ts = to_list (TissueList (to_list tissues_arg))
      in case getitem (df g) (Label (col_tissue g)) of
           Inl e \<Rightarrow> (g, Some e)
         | Inr col \<Rightarrow>
             (let msk = isin col ts
              in case getitem_mask (df g) msk of
                   Inl e \<Rightarrow> (g, Some e)
                 | Inr d \<Rightarrow> cleanup (g\<lparr>df := d\<rparr>) 0))"

section \<open>Construction of IC50 on a store of dataframes\<close>

text \<open>
  In Python an object holds a reference to its dataframe, and two objects may refer to
  one dataframe. To speak of sharing, the dataframes live in a store and are named by
  their address; \<^verbatim>\<open>df.copy()\<close>, \<^verbatim>\<open>pd.read_csv\<close> and \<^verbatim>\<open>df[[...]]\<close> allocate a new
  dataframe, \<^verbatim>\<open>set_index(..., inplace=True)\<close> changes one in place. The constructor of
  \<^verbatim>\<open>IC50\<close> is written again on the store, with the same steps as \<open>IC50_init\<close>;
  \<open>ic50_of\<close> and \<open>pyobj_of\<close> read an object and an argument out of the store.
  A reference of Python always leads to an object: the addresses that the constructor
  receives are present in the store.
\<close>

type_synonym addr = nat

type_synonym store = "dataframe list"

definition present :: "store \<Rightarrow> addr \<Rightarrow> bool" where
  "present h a = (a < length h)"

definition frame_at :: "store \<Rightarrow> addr \<Rightarrow> dataframe" where
  "frame_at h a = h ! a"

definition alloc :: "dataframe \<Rightarrow> store \<Rightarrow> addr \<times> store" where
  "alloc d h = (length h, h @ [d])"

text \<open>A change of the dataframe at an address, in place.\<close>

definition mutate :: "addr \<Rightarrow> (dataframe \<Rightarrow> dataframe) \<Rightarrow> store \<Rightarrow> store" where
  "mutate a f h = h[a := f (frame_at h a)]"

record ic50_obj =
  obj_sep :: string
  df_ref :: addr
  rawdf_ref :: "addr option"

datatype pyref = RefStr string | RefFrame addr | RefIC50 ic50_obj | RefOther

fun IC50_init_store :: "filesystem \<Rightarrow> store \<Rightarrow> pyref \<Rightarrow> string \<Rightarrow> error + ic50_obj \<times> store" where
  "IC50_init_store fs h (RefStr filename) s =
     (case read_csv fs filename s of
        Inl e \<Rightarrow> Inl e
      | Inr raw \<Rightarrow>
          (let (a_raw, h1) = alloc raw h
           in case select_labels (\<lambda>x. startswith x ''Drug'') (labels (frame_at h1 a_raw)) of
                Inl e \<Rightarrow> Inl e
              | Inr drugs \<Rightarrow>
                  (case getitem_list (frame_at h1 a_raw) (Label COSMIC_ID # drugs) of
                     Inl e \<Rightarrow> Inl e
                   | Inr d \<Rightarrow>
                       (let (a_sel, h2) = alloc d h1;
                            (a_df, h3) = alloc (copy (frame_at h2 a_sel)) h2
                        in case set_index (frame_at h3 a_df) (Label COSMIC_ID) of
                             Inl e \<Rightarrow> Inl e
                           | Inr d' \<Rightarrow>
                               Inr (\<lparr>obj_sep = s, df_ref = a_df, rawdf_ref = Some a_raw\<rparr>,
                                    mutate a_df (\<lambda>_. d') h3)))))"
| "IC50_init_store fs h (RefIC50 a) s =
     (let (a_df, h1) = alloc (copy (frame_at h (df_ref a))) h
      in Inr (\<lparr>obj_sep = s, df_ref = a_df, rawdf_ref = None\<rparr>, h1))"
| "IC50_init_store fs h (RefFrame p) s =
     (let (a_df, h1) = alloc (copy (frame_at h p)) h
      in Inr (\<lparr>obj_sep = s, df_ref = a_df, rawdf_ref = None\<rparr>, h1))"
| "IC50_init_store fs h RefOther s = Inl TypeError"

definition ic50_of :: "store \<Rightarrow> ic50_obj \<Rightarrow> ic50" where
  "ic50_of h b = \<lparr>sep = obj_sep b, df = frame_at h (df_ref b),
                 rawdf = map_option (frame_at h) (rawdf_ref b)\<rparr>"

fun pyobj_of :: "store \<Rightarrow> pyref \<Rightarrow> pyobj" where
  "pyobj_of h (RefStr filename) = PyStr filename"
| "pyobj_of h (RefFrame p) = PyFrame (frame_at h p)"
| "pyobj_of h (RefIC50 a) = PyIC50 (ic50_of h a)"
| "pyobj_of h RefOther = PyObject None None"

section \<open>The vocabulary of the properties\<close>

text \<open>\<open>is_str\<close>: the label is a string. \<open>text_has P\<close>: it is a string with the property \<open>P\<close>.\<close>

fun is_str :: "label \<Rightarrow> bool" where
  "is_str (Label x) = True"
| "is_str (NonStr x) = False"

fun text_has :: "(string \<Rightarrow> bool) \<Rightarrow> label \<Rightarrow> bool" where
  "text_has P (Label x) = P x"
| "text_has P (NonStr x) = False"

text \<open>
  The form in which the documentation of \<^verbatim>\<open>IC50\<close> describes its table: the index is
  the column \<^verbatim>\<open>COSMIC ID\<close> and every column is a drug. The constructor gives this form
  to what it reads from a file; it takes a dataframe or another instance as it is.
\<close>

definition ic50_format :: "dataframe \<Rightarrow> bool" where
  "ic50_format d =
     (index_name d = Some (Label COSMIC_ID) \<and> distinct (labels d)
      \<and> list_all (text_has (\<lambda>x. startswith x ''Drug'')) (labels d))"

text \<open>
  The form of the table of \<^verbatim>\<open>GenomicFeatures\<close>: indexed by \<^verbatim>\<open>COSMIC ID\<close>, with distinct
  labels, all of them strings, the three compulsory columns and no drug column.
\<close>

definition genomic_features_format :: "dataframe \<Rightarrow> bool" where
  "genomic_features_format d =
     (index_name d = Some (Label COSMIC_ID) \<and> distinct (Label COSMIC_ID # labels d)
      \<and> list_all (text_has (\<lambda>x. \<not> startswith x ''Drug_'')) (labels d)
      \<and> list_all (\<lambda>x. Label x \<in> set (labels d)) [TISSUE, SAMPLE, MSI])"

text \<open>
  The rows of a dataframe: each row is its index label with the cells of the row, every
  cell under the label of its column. \<open>restrict_row\<close> keeps the cells of the given
  column labels.
\<close>

type_synonym row = "cell \<times> (label \<times> cell) list"







text \<open>
  Exactly one column carries the label. The constructor of \<^verbatim>\<open>GenomicFeatures\<close> asserts
  that the tissue column exists; a parsed file has no repeated label, a dataframe may
  have.
\<close>

definition unique_label :: "dataframe \<Rightarrow> label \<Rightarrow> bool" where
  "unique_label d l = (length (columns_of (columns d) l) = 1)"

text \<open>
  The three informative columns of \<^verbatim>\<open>_cleanup\<close>; a feature is any other column. The
  feature columns are numeric when every cell of them is a number.
\<close>

definition is_number :: "cell \<Rightarrow> bool" where
  "is_number c = (case c of Num _ \<Rightarrow> True | _ \<Rightarrow> False)"

definition special :: "genomic_features \<Rightarrow> label \<Rightarrow> bool" where
  "special g l = (l \<in> set [Label (col_tissue g), Label (col_msi g), Label (col_sample g)])"

definition numeric_features :: "genomic_features \<Rightarrow> bool" where
  "numeric_features g =
     list_all (\<lambda>c. special g (fst c) \<or> list_all is_number (snd c)) (columns (df g))"

text \<open>The sum of the numbers of a column, and whether one of them is not zero.\<close>

definition num_total :: "cell list \<Rightarrow> rat" where
  "num_total col = sum_list (map (\<lambda>x. case x of Num q \<Rightarrow> q | _ \<Rightarrow> 0) col)"

definition has_nonzero :: "cell list \<Rightarrow> bool" where
  "has_nonzero col = list_ex (\<lambda>x. case x of Num q \<Rightarrow> q \<noteq> 0 | _ \<Rightarrow> False) col"

text \<open>
  The labels that the pruning keeps, read off a list of rows under the column labels
  \<open>ls\<close>: the cells of the rows at position \<open>j\<close> are a column; a label goes when a
  feature column that carries it sums to 0 or less.
\<close>

definition rows_column :: "row list \<Rightarrow> nat \<Rightarrow> cell list" where
  "rows_column R j = map (\<lambda>r. snd (snd r ! j)) R"

definition zero_labels :: "genomic_features \<Rightarrow> label list \<Rightarrow> row list \<Rightarrow> label list" where
  "zero_labels g ls R =
     map (\<lambda>j. ls ! j)
       (filter (\<lambda>j. \<not> special g (ls ! j) \<and> num_total (rows_column R j) \<le> 0) [0..<length ls])"

definition kept_labels :: "genomic_features \<Rightarrow> label list \<Rightarrow> row list \<Rightarrow> label list" where
  "kept_labels g ls R = filter (\<lambda>l. l \<notin> set (zero_labels g ls R)) ls"

text \<open>The cells of a dataframe, and how many of them are missing.\<close>

definition cells :: "dataframe \<Rightarrow> cell list" where
  "cells d = concat (map snd (columns d))"

definition null_cells :: "dataframe \<Rightarrow> nat" where
  "null_cells d = length (filter isnull (cells d))"

section \<open>Example data\<close>

definition example_ic50_table :: csv_table where
  "example_ic50_table =
     [(''COSMIC ID'', [Num 111111, Num 222222]),
      (''Drug_1_IC50'', [Num (1/2), Num 1]),
      (''Tissue'', [Str ''lung'', Str ''skin'']),
      (''Drug_20_IC50'', [Num (4/5), NaN])]"

definition example_features_table :: csv_table where
  "example_features_table =
     [(''COSMIC ID'', [Num 1, Num 2, Num 3]),
      (''Tissue Factor Value'', [Str ''lung'', Str ''breast'', Str ''lung'']),
      (''Sample Name'', [Str ''A'', Str ''B'', Str ''C'']),
      (''MS-instability Factor Value'', [Num 0, Num 1, Num 0]),
      (''BRAF_mut'', [Num 1, Num 0, Num 0]),
      (''TP53_mut'', [Num 0, Num 1, Num 0]),
      (''Drug_1_IC50'', [Num (1/2), NaN, Num 2])]"

definition example_no_cosmic_table :: csv_table where
  "example_no_cosmic_table =
     [(''Tissue Factor Value'', [Str ''lung'']),
      (''Sample Name'', [Str ''A'']),
      (''MS-instability Factor Value'', [Num 0])]"

definition example_fs :: filesystem where
  "example_fs filename s =
     (if s \<noteq> tab then None
      else if filename = ''ic50.tsv'' then Some example_ic50_table
      else if filename = share_file then Some example_features_table
      else if filename = ''no_cosmic.tsv'' then Some example_no_cosmic_table
      else None)"

definition example_ic50 :: ic50 where
  "example_ic50 =
     \<lparr>sep = tab,
      df = \<lparr>index_name = Some (Label ''COSMIC ID''), index = [Num 111111, Num 222222],
            columns = [(Label ''Drug_1_IC50'', [Num (1/2), Num 1]),
                       (Label ''Drug_20_IC50'', [Num (4/5), NaN])]\<rparr>,
      rawdf = None\<rparr>"

definition example_genomic_features :: genomic_features where
  "example_genomic_features =
     \<lparr>sep = tab,
      df = \<lparr>index_name = Some (Label ''COSMIC ID''), index = [Num 1, Num 2, Num 3],
            columns = [(Label ''Tissue Factor Value'', [Str ''lung'', Str ''breast'', Str ''lung'']),
                       (Label ''Sample Name'', [Str ''A'', Str ''B'', Str ''C'']),
                       (Label ''MS-instability Factor Value'', [Num 0, Num 1, Num 0]),
                       (Label ''BRAF_mut'', [Num 1, Num 0, Num 0]),
                       (Label ''TP53_mut'', [Num 0, Num 1, Num 0])]\<rparr>,
      col_tissue = ''Tissue Factor Value'', col_sample = ''Sample Name'',
      col_msi = ''MS-instability Factor Value''\<rparr>"

text \<open>A file system that holds one written file and nothing else.\<close>

definition fs_after :: "csv_write \<Rightarrow> filesystem" where
  "fs_after w filename s =
     (if filename = w_filename w \<and> s = w_sep w then Some (w_table w) else None)"

text \<open>An IC50 object made from a dataframe that has a column of tissues.\<close>

definition example_frame :: dataframe where
  "example_frame =
     \<lparr>index_name = Some (Label ''COSMIC ID''), index = [Num 111111],
      columns = [(Label ''Drug_1_IC50'', [Num 1]), (Label ''Tissue'', [Str ''lung''])]\<rparr>"

definition example_ic50_of_frame :: ic50 where
  "example_ic50_of_frame = \<lparr>sep = tab, df = example_frame, rawdf = None\<rparr>"

definition example_ic50_reread :: ic50 where
  "example_ic50_reread =
     \<lparr>sep = tab,
      df = \<lparr>index_name = Some (Label ''COSMIC ID''), index = [Num 111111],
            columns = [(Label ''Drug_1_IC50'', [Num 1])]\<rparr>,
      rawdf = Some \<lparr>index_name = None, index = [Num 0],
                    columns = [(Label ''COSMIC ID'', [Num 111111]),
                               (Label ''Drug_1_IC50'', [Num 1]),
                               (Label ''Tissue'', [Str ''lung''])]\<rparr>\<rparr>"

definition example_ic50_from_file :: ic50 where
  "example_ic50_from_file =
     \<lparr>sep = tab,
      df = \<lparr>index_name = Some (Label ''COSMIC ID''), index = [Num 111111, Num 222222],
            columns = [(Label ''Drug_1_IC50'', [Num (1/2), Num 1]),
                       (Label ''Drug_20_IC50'', [Num (4/5), NaN])]\<rparr>,
      rawdf = Some \<lparr>index_name = None, index = [Num 0, Num 1],
                    columns = frame_columns example_ic50_table\<rparr>\<rparr>"


definition example_lung_only :: genomic_features where
  "example_lung_only =
     \<lparr>sep = tab,
      df = \<lparr>index_name = Some (Label ''COSMIC ID''), index = [Num 1, Num 3],
            columns = [(Label ''Tissue Factor Value'', [Str ''lung'', Str ''lung'']),
                       (Label ''Sample Name'', [Str ''A'', Str ''C'']),
                       (Label ''MS-instability Factor Value'', [Num 0, Num 0]),
                       (Label ''BRAF_mut'', [Num 1, Num 0])]\<rparr>,
      col_tissue = ''Tissue Factor Value'', col_sample = ''Sample Name'',
      col_msi = ''MS-instability Factor Value''\<rparr>"

definition example_store :: store where
  "example_store = [example_frame]"

text \<open>
  A dataframe with the three compulsory columns and a feature of zeros, in which the
  label of the tissue column is carried twice, and the object that the constructor of
  \<^verbatim>\<open>GenomicFeatures\<close> makes of it: the selection by the list of its labels takes the two
  tissue columns once for each of the two labels.
\<close>

definition example_two_tissues_frame :: dataframe where
  "example_two_tissues_frame =
     \<lparr>index_name = Some (Label ''COSMIC ID''), index = [Num 1, Num 2],
      columns = [(Label ''Tissue Factor Value'', [Str ''lung'', Str ''breast'']),
                 (Label ''Sample Name'', [Str ''A'', Str ''B'']),
                 (Label ''MS-instability Factor Value'', [Num 0, Num 1]),
                 (Label ''BRAF_mut'', [Num 0, Num 0]),
                 (Label ''Tissue Factor Value'', [Str ''lung'', Str ''breast''])]\<rparr>"

definition example_two_tissues :: genomic_features where
  "example_two_tissues =
     \<lparr>sep = tab,
      df = \<lparr>index_name = Some (Label ''COSMIC ID''), index = [Num 1, Num 2],
            columns = [(Label ''Tissue Factor Value'', [Str ''lung'', Str ''breast'']),
                       (Label ''Tissue Factor Value'', [Str ''lung'', Str ''breast'']),
                       (Label ''Sample Name'', [Str ''A'', Str ''B'']),
                       (Label ''MS-instability Factor Value'', [Num 0, Num 1]),
                       (Label ''BRAF_mut'', [Num 0, Num 0]),
                       (Label ''Tissue Factor Value'', [Str ''lung'', Str ''breast'']),
                       (Label ''Tissue Factor Value'', [Str ''lung'', Str ''breast''])]\<rparr>,
      col_tissue = ''Tissue Factor Value'', col_sample = ''Sample Name'',
      col_msi = ''MS-instability Factor Value''\<rparr>"


definition example_number_label_frame :: dataframe where
  "example_number_label_frame =
     \<lparr>index_name = Some (Label ''COSMIC ID''), index = [Num 1],
      columns = [(Label ''Tissue Factor Value'', [Str ''lung'']),
                 (Label ''Sample Name'', [Str ''A'']),
                 (Label ''MS-instability Factor Value'', [Num 0]),
                 (NonStr ''7'', [Num 1])]\<rparr>"

definition example_df_label_frame :: dataframe where
  "example_df_label_frame =
     \<lparr>index_name = Some (Label ''COSMIC ID''), index = [Num 1],
      columns = [(Label ''Tissue Factor Value'', [Str ''lung'']),
                 (Label ''Sample Name'', [Str ''A'']),
                 (Label ''MS-instability Factor Value'', [Num 0]),
                 (Label ''df'', [Num 1])]\<rparr>"

section \<open>Lemmas on the table operations\<close>

lemma columns_of_distinct:
  "distinct (map fst t) \<Longrightarrow> l \<in> set (map fst t) \<Longrightarrow> columns_of t l = [(l, the (map_of t l))]"
  unfolding columns_of_def
proof (induction t)
  case Nil
  then show ?case by simp
next
  case (Cons c t)
  obtain a b where c: "c = (a, b)" by (cases c)
  show ?case
  proof (cases "a = l")
    case True
    with Cons.prems c have "filter (\<lambda>c. fst c = l) t = []"
      by (auto simp: filter_empty_conv)
    with True c show ?thesis by simp
  next
    case False
    with Cons c show ?thesis by auto
  qed
qed

lemma columns_of_absent:
  "l \<notin> set (map fst t) \<Longrightarrow> columns_of t l = []"
  unfolding columns_of_def by (auto simp: filter_empty_conv)

lemma select_labels_distinct:
  "distinct (map fst t) \<Longrightarrow> set ls \<subseteq> set (map fst t) \<Longrightarrow>
   concat (map (columns_of t) ls) = map (\<lambda>l. (l, the (map_of t l))) ls"
  by (induction ls) (simp_all add: columns_of_distinct)

lemma relabel_distinct:
  "distinct (map fst t) \<Longrightarrow> map (\<lambda>l. (l, the (map_of t l))) (map fst t) = t"
proof (induction t)
  case Nil
  then show ?case by simp
next
  case (Cons c t)
  obtain a b where c: "c = (a, b)" by (cases c)
  from Cons.prems c have "a \<notin> set (map fst t)" by simp
  then have "map (\<lambda>l. (l, the (map_of (c # t) l))) (map fst t) = map (\<lambda>l. (l, the (map_of t l))) (map fst t)"
    unfolding c by (intro map_cong) auto
  with Cons c show ?case by simp
qed

lemma select_filter_distinct:
  assumes "distinct (map fst t)"
  shows "concat (map (columns_of t) (filter P (map fst t))) = filter (\<lambda>c. P (fst c)) t"
proof -
  have "concat (map (columns_of t) (filter P (map fst t)))
        = map (\<lambda>l. (l, the (map_of t l))) (filter P (map fst t))"
    using assms by (intro select_labels_distinct) auto
  also have "\<dots> = filter (\<lambda>c. P (fst c)) (map (\<lambda>l. (l, the (map_of t l))) (map fst t))"
    by (simp add: filter_map comp_def)
  also have "\<dots> = filter (\<lambda>c. P (fst c)) t"
    using assms by (simp only: relabel_distinct)
  finally show ?thesis .
qed

lemma not_startswith_COSMIC: "\<not> startswith COSMIC_ID ''Drug''"
  by (simp add: startswith_def COSMIC_ID_def)

lemma filter_all: "list_all P xs \<Longrightarrow> filter P xs = xs"
  by (induction xs) auto

text \<open>The comprehensions over labels that are strings, and over one that is not.\<close>

lemma select_labels_str:
  "list_all is_str ls \<Longrightarrow> select_labels P ls = Inr (filter (text_has P) ls)"
proof (induction ls)
  case Nil
  then show ?case by simp
next
  case (Cons l ls)
  then show ?case by (cases l) simp_all
qed

lemma select_labels_not_str:
  "\<not> list_all is_str ls \<Longrightarrow> select_labels P ls = Inl AttributeError"
proof (induction ls)
  case Nil
  then show ?case by simp
next
  case (Cons l ls)
  then show ?case by (cases l) simp_all
qed

lemma labels_frame_columns: "map fst (frame_columns t) = map Label (map fst t)"
  by (simp add: frame_columns_def comp_def)

lemma str_frame_columns: "list_all is_str (map fst (frame_columns t))"
  by (simp add: frame_columns_def list_all_iff)

lemma distinct_frame_columns: "distinct (map fst (frame_columns t)) = distinct (map fst t)"
  by (simp add: labels_frame_columns distinct_map inj_on_def)

lemma member_frame_columns:
  "Label x \<in> set (map fst (frame_columns t)) \<longleftrightarrow> x \<in> set (map fst t)"
  by (auto simp: labels_frame_columns)

lemma filter_frame_columns:
  "filter (\<lambda>c. text_has P (fst c)) (frame_columns t) = frame_columns (filter (\<lambda>c. P (fst c)) t)"
  by (simp add: frame_columns_def filter_map comp_def)

lemma filter_neq_frame_columns:
  "filter (\<lambda>c. fst c \<noteq> Label x) (frame_columns t) = frame_columns (filter (\<lambda>c. fst c \<noteq> x) t)"
  by (simp add: frame_columns_def filter_map comp_def)

lemma map_of_frame_columns: "map_of (frame_columns t) (Label x) = map_of t x"
  by (induction t) (auto simp: frame_columns_def)

lemma retext_str:
  "list_all is_str (map fst cs) \<Longrightarrow> map (\<lambda>c. (Label (label_text (fst c)), snd c)) cs = cs"
proof (induction cs)
  case Nil
  then show ?case by simp
next
  case (Cons c cs)
  obtain l col where c: "c = (l, col)" by (cases c)
  with Cons show ?case by (cases l) simp_all
qed

lemma text_has_str: "text_has P l \<Longrightarrow> is_str l"
  by (cases l) simp_all

lemma set_index_distinct:
  assumes "distinct (map fst cs)" and "(l, col) \<in> set cs"
  shows "set_index \<lparr>index_name = n, index = i, columns = cs\<rparr> l
         = Inr \<lparr>index_name = Some l, index = col, columns = filter (\<lambda>c. fst c \<noteq> l) cs\<rparr>"
proof -
  have m: "map_of cs l = Some col" using assms by simp
  have "l \<in> set (map fst cs)" using assms(2) by force
  then have "columns_of cs l = [(l, col)]"
    using columns_of_distinct [OF assms(1)] m by simp
  then show ?thesis by (simp add: set_index_def)
qed

text \<open>The steps of the constructor of IC50 on what it has read.\<close>

lemma IC50_from_file_gen:
  assumes "fs filename s = Some t" and "distinct (map fst t)" and "COSMIC_ID \<in> set (map fst t)"
  shows "\<exists>r. IC50_init fs (PyStr filename) s = Inr r
           \<and> index_name (df r) = Some (Label COSMIC_ID)
           \<and> index (df r) = the (map_of t COSMIC_ID)
           \<and> columns (df r) = frame_columns (filter (\<lambda>c. startswith (fst c) ''Drug'') t)
           \<and> sep r = s"
proof -
  let ?cs = "frame_columns t"
  let ?P = "\<lambda>x. startswith x ''Drug''"
  let ?L = "Label COSMIC_ID"
  have dist: "distinct (map fst ?cs)" using assms(2) by (simp add: distinct_frame_columns)
  have mem: "?L \<in> set (map fst ?cs)" using assms(3) by (simp only: member_frame_columns)
  have ne: "t \<noteq> []" using assms(3) by auto
  define raw where "raw = \<lparr>index_name = None, index = map (\<lambda>i. Num (of_nat i)) [0..<nrows t], columns = ?cs\<rparr>"
  have rd: "read_csv fs filename s = Inr raw"
    using assms(1) ne by (simp add: read_csv_def raw_def split: list.splits)
  have drugs: "select_labels ?P (labels raw) = Inr (filter (text_has ?P) (map fst ?cs))"
    using select_labels_str [OF str_frame_columns] by (simp add: raw_def labels_def)
  let ?cid = "(?L, the (map_of ?cs ?L))"
  let ?D = "filter (\<lambda>c. text_has ?P (fst c)) ?cs"
  define d where "d = raw\<lparr>columns := ?cid # ?D\<rparr>"
  have sel: "getitem_list raw (?L # filter (text_has ?P) (map fst ?cs)) = Inr d"
    using mem dist select_filter_distinct [OF dist, of "text_has ?P"]
      columns_of_distinct [OF dist mem]
    by (simp add: getitem_list_def labels_def raw_def d_def list_all_iff)
  have notP: "\<not> text_has ?P ?L" using not_startswith_COSMIC by simp
  have c1: "columns_of (columns d) ?L = [?cid]"
    using notP by (auto simp: d_def columns_of_def filter_empty_conv)
  have c2: "filter (\<lambda>c. fst c \<noteq> ?L) (columns d) = ?D"
    using notP by (auto simp: d_def intro: filter_cong)
  have si: "set_index (copy d) ?L =
     Inr (d\<lparr>index_name := Some ?L, index := the (map_of ?cs ?L), columns := ?D\<rparr>)"
    by (simp add: set_index_def copy_def c1 c2)
  have "IC50_init fs (PyStr filename) s =
     Inr \<lparr>sep = s, df = d\<lparr>index_name := Some ?L, index := the (map_of ?cs ?L),
            columns := ?D\<rparr>, rawdf = Some raw\<rparr>"
    by (simp add: rd drugs sel si)
  then show ?thesis
    by (simp add: map_of_frame_columns filter_frame_columns)
qed

lemma assert_columns_iff:
  "assert_columns d ns
     = (if Label ` set ns \<subseteq> set (labels d) then Inr () else Inl AssertionError)"
  by (induction ns) auto

lemma labels_select:
  "set ls \<subseteq> fst ` set cs \<Longrightarrow> fst ` set (concat (map (columns_of cs) ls)) = set ls"
  by (fastforce simp: columns_of_def)

lemma getitem_list_filter:
  "getitem_list d (filter P (labels d)) =
     Inr (d\<lparr>columns := concat (map (columns_of (columns d)) (filter P (labels d)))\<rparr>)"
  by (simp add: getitem_list_def list_all_iff)

lemma labels_without_drug:
  "set (labels (d\<lparr>columns := concat (map (columns_of (columns d)) (filter P (labels d)))\<rparr>))
     = set (filter P (labels d))"
  using labels_select [of "filter P (labels d)" "columns d"]
  by (simp add: labels_def)

text \<open>The constructor of GenomicFeatures once \<^verbatim>\<open>self.df\<close> is a table.\<close>

lemma default_filename: "x \<noteq> PyNone \<Longrightarrow> (case x of PyNone \<Rightarrow> PyStr share_file | _ \<Rightarrow> x) = x"
  by (cases x) simp_all

lemma GenomicFeatures_init_of_load:
  assumes "GenomicFeatures_load fs x = Inr d" and "x \<noteq> PyNone" and "list_all is_str (labels d)"
  shows "GenomicFeatures_init fs x s =
     (if Label ` set [TISSUE, SAMPLE, MSI]
           \<subseteq> set (filter (text_has (\<lambda>x. \<not> startswith x ''Drug_'')) (labels d))
      then Inr \<lparr>sep = tab,
                df = d\<lparr>columns := concat (map (columns_of (columns d))
                         (filter (text_has (\<lambda>x. \<not> startswith x ''Drug_'')) (labels d)))\<rparr>,
                col_tissue = TISSUE, col_sample = SAMPLE, col_msi = MSI\<rparr>
      else Inl AssertionError)"
  unfolding GenomicFeatures_init_def Let_def default_filename [OF assms(2)] assms(1)
    sum.case select_labels_str [OF assms(3)] getitem_list_filter assert_columns_iff
    labels_without_drug
  by simp

lemma GenomicFeatures_init_not_str:
  assumes "GenomicFeatures_load fs x = Inr d" and "x \<noteq> PyNone" and "\<not> list_all is_str (labels d)"
  shows "GenomicFeatures_init fs x s = Inl AttributeError"
  unfolding GenomicFeatures_init_def Let_def default_filename [OF assms(2)] assms(1)
    sum.case select_labels_not_str [OF assms(3)]
  by simp

lemma GenomicFeatures_init_load_error:
  assumes "GenomicFeatures_load fs x = Inl e" and "x \<noteq> PyNone"
  shows "GenomicFeatures_init fs x s = Inl e"
  unfolding GenomicFeatures_init_def Let_def default_filename [OF assms(2)] assms(1) by simp

lemma IC50_roundtrip:
  assumes fmt: "ic50_format (df r)" and rb: "reads_back fs (to_csv r filename sep_arg)"
  shows "\<exists>r'. IC50_init fs (PyStr filename) (w_sep (to_csv r filename sep_arg)) = Inr r'
              \<and> df r' = df r"
proof -
  let ?cs = "columns (df r)"
  let ?t = "(COSMIC_ID, index (df r)) # map (\<lambda>c. (label_text (fst c), snd c)) ?cs"
  let ?P = "\<lambda>x. startswith x ''Drug''"
  let ?s = "w_sep (to_csv r filename sep_arg)"
  have f: "fs filename ?s = Some ?t"
    using rb fmt by (simp add: reads_back_def to_csv_def frame_to_csv_def ic50_format_def)
  have allP: "list_all (text_has ?P) (map fst ?cs)"
    using fmt by (simp add: ic50_format_def labels_def)
  then have str: "list_all is_str (map fst ?cs)"
    using text_has_str by (auto simp: list_all_iff)
  have reread: "frame_columns ?t = (Label COSMIC_ID, index (df r)) # ?cs"
    using retext_str [OF str] by (simp add: frame_columns_def comp_def)
  have notin: "Label COSMIC_ID \<notin> set (map fst ?cs)"
  proof
    assume "Label COSMIC_ID \<in> set (map fst ?cs)"
    then obtain c where c: "c \<in> set ?cs" "fst c = Label COSMIC_ID" by auto
    from allP c(1) have "text_has ?P (fst c)" by (simp add: list_all_iff)
    with c(2) not_startswith_COSMIC show False by simp
  qed
  have "distinct (map fst (frame_columns ?t))"
    unfolding reread using fmt notin by (simp add: ic50_format_def labels_def)
  then have wf: "distinct (map fst ?t)" by (simp only: distinct_frame_columns)
  have "filter (\<lambda>c. text_has ?P (fst c)) (frame_columns ?t) = ?cs"
    unfolding reread using allP not_startswith_COSMIC by (simp add: filter_all list_all_iff)
  then have cols: "frame_columns (filter (\<lambda>c. ?P (fst c)) ?t) = ?cs"
    by (simp only: filter_frame_columns)
  have "COSMIC_ID \<in> set (map fst ?t)" by simp
  from IC50_from_file_gen [of fs filename ?s ?t, OF f wf this]
  obtain r' where r': "IC50_init fs (PyStr filename) ?s = Inr r'"
    "index_name (df r') = Some (Label COSMIC_ID)" "index (df r') = the (map_of ?t COSMIC_ID)"
    "columns (df r') = frame_columns (filter (\<lambda>c. ?P (fst c)) ?t)"
    by blast
  have "df r' = df r"
    using r'(2,3) r'(4) [unfolded cols] fmt by (simp add: ic50_format_def dataframe.equality)
  with r'(1) show ?thesis by blast
qed

lemma GenomicFeatures_load_file:
  assumes "fs filename tab = Some t" and "distinct (map fst t)" and "COSMIC_ID \<in> set (map fst t)"
  shows "GenomicFeatures_load fs (PyStr filename) =
          Inr \<lparr>index_name = Some (Label COSMIC_ID), index = the (map_of t COSMIC_ID),
               columns = frame_columns (filter (\<lambda>c. fst c \<noteq> COSMIC_ID) t)\<rparr>"
proof -
  let ?cs = "frame_columns t"
  have ne: "t \<noteq> []" using assms(3) by auto
  have dist: "distinct (map fst ?cs)" using assms(2) by (simp add: distinct_frame_columns)
  have mem: "Label COSMIC_ID \<in> set (map fst ?cs)"
    using assms(3) by (simp only: member_frame_columns)
  then obtain col where col: "(Label COSMIC_ID, col) \<in> set ?cs" by auto
  then have m: "map_of ?cs (Label COSMIC_ID) = Some col" using dist by simp
  have rd: "read_csv fs filename tab =
      Inr \<lparr>index_name = None, index = map (\<lambda>i. Num (of_nat i)) [0..<nrows t], columns = ?cs\<rparr>"
    using assms(1) ne by (simp add: read_csv_def split: list.splits)
  show ?thesis
    using mem set_index_distinct [OF dist col] m
    by (simp add: rd labels_def map_of_frame_columns filter_neq_frame_columns)
qed

lemma GenomicFeatures_init_file:
  assumes "fs filename tab = Some t" and "distinct (map fst t)" and "COSMIC_ID \<in> set (map fst t)"
  shows "GenomicFeatures_init fs (PyStr filename) s =
     (if set [TISSUE, SAMPLE, MSI] \<subseteq> set (filter (\<lambda>x. \<not> startswith x ''Drug_'') (map fst t))
      then Inr \<lparr>sep = tab,
                df = \<lparr>index_name = Some (Label COSMIC_ID), index = the (map_of t COSMIC_ID),
                      columns = frame_columns
                        (filter (\<lambda>c. \<not> startswith (fst c) ''Drug_'' \<and> fst c \<noteq> COSMIC_ID) t)\<rparr>,
                col_tissue = TISSUE, col_sample = SAMPLE, col_msi = MSI\<rparr>
      else Inl AssertionError)"
proof -
  let ?t' = "filter (\<lambda>c. fst c \<noteq> COSMIC_ID) t"
  let ?cs = "frame_columns ?t'"
  let ?d = "\<lparr>index_name = Some (Label COSMIC_ID), index = the (map_of t COSMIC_ID), columns = ?cs\<rparr>"
  let ?Q = "\<lambda>x. \<not> startswith x ''Drug_''"
  have ld: "GenomicFeatures_load fs (PyStr filename) = Inr ?d"
    using assms by (rule GenomicFeatures_load_file)
  have str: "list_all is_str (labels ?d)"
    using str_frame_columns [of ?t'] by (simp add: labels_def)
  have dist: "distinct (map fst ?cs)"
    using assms(2) by (simp add: distinct_frame_columns distinct_map_filter)
  have "concat (map (columns_of ?cs) (filter (text_has ?Q) (labels ?d)))
             = filter (\<lambda>c. text_has ?Q (fst c)) ?cs"
    using select_filter_distinct [OF dist, of "text_has ?Q"] by (simp add: labels_def)
  also have "\<dots> = frame_columns (filter (\<lambda>c. ?Q (fst c)) ?t')"
    by (rule filter_frame_columns)
  also have "\<dots> = frame_columns (filter (\<lambda>c. ?Q (fst c) \<and> fst c \<noteq> COSMIC_ID) t)"
    by (simp add: conj_commute)
  finally have sel: "concat (map (columns_of ?cs) (filter (text_has ?Q) (labels ?d)))
             = frame_columns (filter (\<lambda>c. ?Q (fst c) \<and> fst c \<noteq> COSMIC_ID) t)" .
  have names: "Label ` set [TISSUE, SAMPLE, MSI] \<subseteq> set (filter (text_has ?Q) (labels ?d))
               \<longleftrightarrow> set [TISSUE, SAMPLE, MSI] \<subseteq> set (filter ?Q (map fst t))"
    by (auto simp: labels_def labels_frame_columns TISSUE_def SAMPLE_def MSI_def COSMIC_ID_def)
  have init: "GenomicFeatures_init fs (PyStr filename) s =
     (if Label ` set [TISSUE, SAMPLE, MSI] \<subseteq> set (filter (text_has ?Q) (labels ?d))
      then Inr \<lparr>sep = tab,
                df = ?d\<lparr>columns := concat (map (columns_of (columns ?d))
                                       (filter (text_has ?Q) (labels ?d)))\<rparr>,
                col_tissue = TISSUE, col_sample = SAMPLE, col_msi = MSI\<rparr>
      else Inl AssertionError)"
    by (rule GenomicFeatures_init_of_load [OF ld _ str]) simp
  have upd: "?d\<lparr>columns := concat (map (columns_of (columns ?d)) (filter (text_has ?Q) (labels ?d)))\<rparr>
     = \<lparr>index_name = Some (Label COSMIC_ID), index = the (map_of t COSMIC_ID),
         columns = frame_columns (filter (\<lambda>c. ?Q (fst c) \<and> fst c \<noteq> COSMIC_ID) t)\<rparr>"
    using sel by simp
  show ?thesis
    unfolding init names upd ..
qed

lemma GenomicFeatures_roundtrip:
  assumes fmt: "genomic_features_format (df g)" and s: "w_sep (to_csv g filename sep_arg) = tab"
    and rb: "reads_back fs (to_csv g filename sep_arg)"
  shows "\<exists>g'. GenomicFeatures_init fs (PyStr filename) s' = Inr g' \<and> df g' = df g"
proof -
  let ?cs = "columns (df g)"
  let ?t = "(COSMIC_ID, index (df g)) # map (\<lambda>c. (label_text (fst c), snd c)) ?cs"
  let ?Q = "\<lambda>x. \<not> startswith x ''Drug_''"
  have f: "fs filename tab = Some ?t"
    using rb fmt s by (simp add: reads_back_def to_csv_def frame_to_csv_def genomic_features_format_def)
  have allQ: "list_all (text_has ?Q) (map fst ?cs)"
    using fmt by (simp add: genomic_features_format_def labels_def)
  then have str: "list_all is_str (map fst ?cs)"
    using text_has_str by (auto simp: list_all_iff)
  have reread: "frame_columns ?t = (Label COSMIC_ID, index (df g)) # ?cs"
    using retext_str [OF str] by (simp add: frame_columns_def comp_def)
  have "distinct (map fst (frame_columns ?t))"
    unfolding reread using fmt by (simp add: genomic_features_format_def labels_def)
  then have wf: "distinct (map fst ?t)" by (simp only: distinct_frame_columns)
  have notin: "Label COSMIC_ID \<notin> set (map fst ?cs)"
    using fmt by (simp add: genomic_features_format_def labels_def)
  have drug: "\<not> startswith COSMIC_ID ''Drug_''"
    by (simp add: startswith_def COSMIC_ID_def)
  have "filter (\<lambda>c. text_has ?Q (fst c) \<and> fst c \<noteq> Label COSMIC_ID) (frame_columns ?t) = ?cs"
    unfolding reread using allQ notin
    by (simp add: list_all_iff) (rule filter_all, force simp: list_all_iff)
  moreover have "filter (\<lambda>c. text_has ?Q (fst c) \<and> fst c \<noteq> Label COSMIC_ID) (frame_columns ?t)
      = frame_columns (filter (\<lambda>c. ?Q (fst c) \<and> fst c \<noteq> COSMIC_ID) ?t)"
    by (simp add: frame_columns_def filter_map comp_def)
  ultimately have cols: "frame_columns (filter (\<lambda>c. ?Q (fst c) \<and> fst c \<noteq> COSMIC_ID) ?t) = ?cs"
    by simp
  have "Label ` set [TISSUE, SAMPLE, MSI] \<subseteq> set (filter (text_has ?Q) (map fst (frame_columns ?t)))"
    unfolding reread using fmt allQ
    by (auto simp: genomic_features_format_def labels_def list_all_iff)
  then have names: "set [TISSUE, SAMPLE, MSI] \<subseteq> set (filter ?Q (map fst ?t))"
    by (auto simp: labels_frame_columns)
  have "COSMIC_ID \<in> set (map fst ?t)" by simp
  from GenomicFeatures_init_file [of fs filename ?t s', OF f wf this]
  have "GenomicFeatures_init fs (PyStr filename) s' =
     Inr \<lparr>sep = tab,
          df = \<lparr>index_name = Some (Label COSMIC_ID), index = index (df g), columns = ?cs\<rparr>,
          col_tissue = TISSUE, col_sample = SAMPLE, col_msi = MSI\<rparr>"
    unfolding cols using names by simp
  moreover have "\<lparr>index_name = Some (Label COSMIC_ID), index = index (df g), columns = ?cs\<rparr> = df g"
    using fmt by (simp add: genomic_features_format_def dataframe.equality)
  ultimately show ?thesis by simp
qed

lemmas model_defs =
  read_csv_def getitem_list_def set_index_def columns_of_def labels_def copy_def nrows_def
  startswith_def COSMIC_ID_def TISSUE_def SAMPLE_def MSI_def tab_def share_file_def
  GenomicFeatures_init_def to_csv_def frame_to_csv_def reads_back_def frame_columns_def
  self_df_def

section \<open>Lemmas on rows and masks\<close>

lemma select_Nil [simp]: "select [] xs = []" "select m [] = []"
  by (simp_all add: select_def)

lemma select_Cons [simp]:
  "select (b # m) (x # xs) = (if b then x # select m xs else select m xs)"
  by (simp add: select_def)







section \<open>Lemmas on the pruning of columns\<close>

lemma column_sum_numeric:
  "list_all is_number col \<Longrightarrow> column_sum col = Inr (num_total col)"
proof (induction col)
  case Nil
  then show ?case by (simp add: num_total_def)
next
  case (Cons x col)
  then show ?case by (cases x) (simp_all add: num_total_def is_number_def)
qed

lemma frame_sum_numeric:
  "list_all (\<lambda>c. list_all is_number (snd c)) cs \<Longrightarrow>
   frame_sum cs = Inr (map (\<lambda>c. num_total (snd c)) cs)"
  by (induction cs) (simp_all add: column_sum_numeric)

lemma set_view:
  "set (concat (map (columns_of cs) (filter Q (map fst cs)))) = {c \<in> set cs. Q (fst c)}"
  by (auto simp: columns_of_def)

lemma zip_fst_total:
  "zip (map fst cs) (map (\<lambda>c. num_total (snd c)) cs) = map (\<lambda>c. (fst c, num_total (snd c))) cs"
  by (induction cs) simp_all

lemma cleanup_numeric:
  assumes "numeric_features g"
  shows "\<exists>L. set L = fst ` {c \<in> set (columns (df g)). \<not> special g (fst c) \<and> num_total (snd c) \<le> rf}
           \<and> cleanup g rf
               = (g\<lparr>df := (df g)\<lparr>columns := filter (\<lambda>c. fst c \<notin> set L) (columns (df g))\<rparr>\<rparr>, None)"
proof -
  let ?cs = "columns (df g)"
  let ?Q = "\<lambda>x. x \<notin> set [Label (col_tissue g), Label (col_msi g), Label (col_sample g)]"
  let ?V = "concat (map (columns_of ?cs) (filter ?Q (labels (df g))))"
  let ?L = "map fst (filter (\<lambda>p. snd p \<le> rf) (zip (labels ((df g)\<lparr>columns := ?V\<rparr>))
              (map (\<lambda>c. num_total (snd c)) ?V)))"
  have view: "getitem_list (df g) (filter ?Q (labels (df g))) = Inr ((df g)\<lparr>columns := ?V\<rparr>)"
    by (rule getitem_list_filter)
  have setV: "set ?V = {c \<in> set ?cs. ?Q (fst c)}"
    unfolding labels_def by (rule set_view)
  have "list_all (\<lambda>c. list_all is_number (snd c)) ?V"
    using assms unfolding list_all_iff setV numeric_features_def special_def by auto
  then have sums: "frame_sum (columns ((df g)\<lparr>columns := ?V\<rparr>)) = Inr (map (\<lambda>c. num_total (snd c)) ?V)"
    by (simp add: frame_sum_numeric)
  have L: "?L = map fst (filter (\<lambda>c. num_total (snd c) \<le> rf) ?V)"
    by (simp add: labels_def zip_fst_total filter_map comp_def)
  have setL: "set ?L = fst ` {c \<in> set ?cs. \<not> special g (fst c) \<and> num_total (snd c) \<le> rf}"
    unfolding L using setV by (auto simp: special_def)
  then have "list_all (\<lambda>l. l \<in> set (labels (df g))) ?L"
    by (auto simp: list_all_iff labels_def)
  then have dropL: "drop_labels (df g) ?L
      = Inr ((df g)\<lparr>columns := filter (\<lambda>c. fst c \<notin> set ?L) ?cs\<rparr>)"
    by (simp add: drop_labels_def)
  have "cleanup g rf = (g\<lparr>df := (df g)\<lparr>columns := filter (\<lambda>c. fst c \<notin> set ?L) ?cs\<rparr>\<rparr>, None)"
    unfolding cleanup_def Let_def view sum.case sums dropL ..
  with setL show ?thesis by blast
qed











lemma unique_labelD: "unique_label d l \<Longrightarrow> \<exists>c. columns_of (columns d) l = [c]"
  by (auto simp: unique_label_def length_Suc_conv)

lemma getitem_unique: "columns_of (columns d) l = [c] \<Longrightarrow> getitem d l = Inr (Series (snd c))"
  by (simp add: getitem_def)


lemma drop_tissue_in_unique:
  assumes "columns_of (columns (df g)) (Label (col_tissue g)) = [c]"
  shows "drop_tissue_in g ts
         = cleanup (g\<lparr>df := mask_rows (df g) (map (\<lambda>v. v \<notin> set (to_list ts)) (snd c))\<rparr>) 0"
  by (simp add: drop_tissue_in_def getitem_unique [OF assms] comp_def)

lemma keep_tissue_in_unique:
  assumes "columns_of (columns (df g)) (Label (col_tissue g)) = [c]"
  shows "keep_tissue_in g ts
         = cleanup (g\<lparr>df := mask_rows (df g) (map (\<lambda>v. v \<in> set (to_list ts)) (snd c))\<rparr>) 0"
  by (simp add: keep_tissue_in_def getitem_unique [OF assms] comp_def)


lemma set_select: "set (select m xs) \<subseteq> set xs"
  unfolding select_def by (auto dest: set_zip_rightD)

lemma special_df [simp]: "special (g\<lparr>df := d\<rparr>) = special g"
  by (simp add: special_def fun_eq_iff)

lemma labels_mask [simp]: "labels (mask_rows d m) = labels d"
  by (simp add: labels_def mask_rows_def comp_def)

lemma numeric_features_mask:
  assumes "numeric_features g"
  shows "numeric_features (g\<lparr>df := mask_rows (df g) m\<rparr>)"
proof -
  have "special g (fst c) \<or> list_all is_number (select m (snd c))"
    if "c \<in> set (columns (df g))" for c
  proof (cases "special g (fst c)")
    case True
    then show ?thesis by simp
  next
    case False
    with that assms have "list_all is_number (snd c)"
      by (auto simp: numeric_features_def list_all_iff)
    then show ?thesis
      using set_select [of m "snd c"] by (auto simp: list_all_iff)
  qed
  then show ?thesis
    by (simp add: numeric_features_def mask_rows_def list_all_iff)
qed

lemma total_zero: "\<not> has_nonzero col \<Longrightarrow> num_total col = 0"
proof (induction col)
  case Nil
  then show ?case by (simp add: num_total_def)
next
  case (Cons x col)
  then show ?case by (cases x) (simp_all add: num_total_def has_nonzero_def)
qed

lemma cleanup_prunes:
  assumes "numeric_features g"
  shows "snd (cleanup g 0) = None
       \<and> list_all (\<lambda>c. special g (fst c) \<or> has_nonzero (snd c)) (columns (df (fst (cleanup g 0))))
       \<and> filter (special g) (labels (df (fst (cleanup g 0)))) = filter (special g) (labels (df g))"
proof -
  let ?cs = "columns (df g)"
  obtain L where L: "set L = fst ` {c \<in> set ?cs. \<not> special g (fst c) \<and> num_total (snd c) \<le> 0}"
    and c: "cleanup g 0 = (g\<lparr>df := (df g)\<lparr>columns := filter (\<lambda>c. fst c \<notin> set L) ?cs\<rparr>\<rparr>, None)"
    using cleanup_numeric [OF assms, of 0] by blast
  have kept: "special g (fst c) \<or> has_nonzero (snd c)"
    if "c \<in> set ?cs" and "fst c \<notin> set L" for c
  proof (cases "special g (fst c)")
    case True
    then show ?thesis by simp
  next
    case False
    with that L have "\<not> num_total (snd c) \<le> 0" by force
    then show ?thesis using total_zero [of "snd c"] by auto
  qed
  have "filter (special g) (map fst (filter (\<lambda>c. fst c \<notin> set L) ?cs))
        = map fst (filter (\<lambda>c. special g (fst c) \<and> fst c \<notin> set L) ?cs)"
    by (simp add: filter_map comp_def conj_commute)
  also have "\<dots> = map fst (filter (\<lambda>c. special g (fst c)) ?cs)"
    using L by (intro arg_cong [where f = "map fst"] filter_cong) auto
  also have "\<dots> = filter (special g) (map fst ?cs)"
    by (simp add: filter_map comp_def)
  finally have sp: "filter (special g) (map fst (filter (\<lambda>c. fst c \<notin> set L) ?cs))
        = filter (special g) (map fst ?cs)" .
  show ?thesis
    using kept sp by (simp add: c list_all_iff labels_def)
qed

lemmas filter_defs =
  drop_tissue_in_def keep_tissue_in_def getitem_def columns_of_def mask_rows_def
  select_def cleanup_def getitem_list_def labels_def drop_labels_def Let_def


lemma example_keep_lung:
  "keep_tissue_in example_genomic_features (TissueList [Str ''lung'', Str ''skin''])
     = (example_lung_only, None)"
  by (simp add: filter_defs example_genomic_features_def example_lung_only_def)


lemma example_unique:
  "unique_label (df example_genomic_features) (Label (col_tissue example_genomic_features))"
  by (simp add: unique_label_def columns_of_def example_genomic_features_def)

lemma example_numeric: "numeric_features example_genomic_features"
  by (simp add: numeric_features_def special_def is_number_def example_genomic_features_def)

section \<open>Lemmas on the labels that the pruning keeps\<close>






lemma kept_labels_df [simp]: "kept_labels (g\<lparr>df := d\<rparr>) = kept_labels g"
  by (simp add: kept_labels_def zero_labels_def fun_eq_iff)



section \<open>Lemmas on objects made from a file\<close>

text \<open>
  What the constructors make of a parsed file has the form that the properties below
  ask of an object: the documented form of the table, one tissue column, columns of
  the length of the index.
\<close>

lemma read_csv_table:
  assumes "fs filename s = Some t" and "t \<noteq> []"
  shows "read_csv fs filename s =
      Inr \<lparr>index_name = None, index = map (\<lambda>i. Num (of_nat i)) [0..<nrows t],
           columns = frame_columns t\<rparr>"
  using assms by (simp add: read_csv_def split: list.splits)

lemma IC50_init_file_absent:
  assumes "fs filename s = Some t" and "COSMIC_ID \<notin> set (map fst t)"
  shows "IC50_init fs (PyStr filename) s = Inl (if t = [] then EmptyDataError else KeyError)"
proof (cases "t = []")
  case True
  with assms(1) show ?thesis by (simp add: read_csv_def)
next
  case False
  let ?raw = "\<lparr>index_name = None, index = map (\<lambda>i. Num (of_nat i)) [0..<nrows t],
           columns = frame_columns t\<rparr>"
  let ?P = "\<lambda>x. startswith x ''Drug''"
  have rd: "read_csv fs filename s = Inr ?raw"
    using read_csv_table [of fs filename s t] assms(1) False by simp
  have drugs: "select_labels ?P (labels ?raw) = Inr (filter (text_has ?P) (labels ?raw))"
    using select_labels_str [OF str_frame_columns] by (simp add: labels_def)
  have "Label COSMIC_ID \<notin> set (labels ?raw)"
    using assms(2) by (simp add: labels_def member_frame_columns del: set_map)
  then have "getitem_list ?raw (Label COSMIC_ID # filter (text_has ?P) (labels ?raw)) = Inl KeyError"
    by (simp add: getitem_list_def)
  with False show ?thesis by (simp add: rd drugs)
qed

lemma GenomicFeatures_init_file_absent:
  assumes "fs filename tab = Some t" and "COSMIC_ID \<notin> set (map fst t)"
  shows "GenomicFeatures_init fs (PyStr filename) s
           = Inl (if t = [] then EmptyDataError else AssertionError)"
proof -
  have "GenomicFeatures_load fs (PyStr filename)
          = Inl (if t = [] then EmptyDataError else AssertionError)"
  proof (cases "t = []")
    case True
    with assms(1) show ?thesis by (simp add: read_csv_def)
  next
    case False
    have "Label COSMIC_ID \<notin> set (map fst (frame_columns t))"
      using assms(2) by (simp only: member_frame_columns not_False_eq_True)
    with False show ?thesis
      using read_csv_table [of fs filename tab t] assms(1)
      by (simp add: labels_def del: set_map)
  qed
  then show ?thesis by (rule GenomicFeatures_init_load_error) simp
qed

lemma IC50_init_file_format:
  assumes "IC50_init fs (PyStr filename) s = Inr r" and "fs filename s = Some t" and "wf_table t"
  shows "ic50_format (df r)"
proof -
  have dist: "distinct (map fst t)" using assms(3) by (simp add: wf_table_def)
  let ?D = "filter (\<lambda>c. startswith (fst c) ''Drug'') t"
  have "COSMIC_ID \<in> set (map fst t)"
  proof (rule ccontr)
    assume "COSMIC_ID \<notin> set (map fst t)"
    from IC50_init_file_absent [of fs filename s t, OF assms(2) this] assms(1)
    show False by simp
  qed
  from IC50_from_file_gen [of fs filename s t, OF assms(2) dist this] assms(1)
  have n: "index_name (df r) = Some (Label COSMIC_ID)"
    and c: "columns (df r) = frame_columns ?D"
    by auto
  have "distinct (map fst (frame_columns ?D))"
    using dist by (simp add: distinct_frame_columns distinct_map_filter)
  moreover have "list_all (text_has (\<lambda>x. startswith x ''Drug'')) (map fst (frame_columns ?D))"
    by (simp add: frame_columns_def list_all_iff)
  ultimately show ?thesis
    using n c by (simp add: ic50_format_def labels_def)
qed

lemma GenomicFeatures_init_file_result:
  assumes "GenomicFeatures_init fs (PyStr filename) s = Inr g" and "fs filename tab = Some t"
    and "wf_table t"
  shows "COSMIC_ID \<in> set (map fst t)
       \<and> set [TISSUE, SAMPLE, MSI] \<subseteq> set (filter (\<lambda>x. \<not> startswith x ''Drug_'') (map fst t))
       \<and> g = \<lparr>sep = tab,
               df = \<lparr>index_name = Some (Label COSMIC_ID), index = the (map_of t COSMIC_ID),
                     columns = frame_columns
                       (filter (\<lambda>c. \<not> startswith (fst c) ''Drug_'' \<and> fst c \<noteq> COSMIC_ID) t)\<rparr>,
               col_tissue = TISSUE, col_sample = SAMPLE, col_msi = MSI\<rparr>"
proof -
  have dist: "distinct (map fst t)" using assms(3) by (simp add: wf_table_def)
  have cid: "COSMIC_ID \<in> set (map fst t)"
  proof (rule ccontr)
    assume "COSMIC_ID \<notin> set (map fst t)"
    from GenomicFeatures_init_file_absent [of fs filename t s, OF assms(2) this] assms(1)
    show False by simp
  qed
  note init = GenomicFeatures_init_file [of fs filename t s, OF assms(2) dist cid]
  have names: "set [TISSUE, SAMPLE, MSI] \<subseteq> set (filter (\<lambda>x. \<not> startswith x ''Drug_'') (map fst t))"
    using init assms(1) by (auto split: if_splits)
  with init assms(1) cid show ?thesis by (simp split: if_splits)
qed

lemma GenomicFeatures_init_file_format:
  assumes "GenomicFeatures_init fs (PyStr filename) s = Inr g" and "fs filename tab = Some t"
    and "wf_table t"
  shows "genomic_features_format (df g) \<and> sep g = tab"
proof -
  have dist: "distinct (map fst t)" using assms(3) by (simp add: wf_table_def)
  let ?Q = "\<lambda>x. \<not> startswith x ''Drug_''"
  let ?t' = "filter (\<lambda>c. ?Q (fst c) \<and> fst c \<noteq> COSMIC_ID) t"
  from GenomicFeatures_init_file_result [OF assms]
  have names: "set [TISSUE, SAMPLE, MSI] \<subseteq> set (filter ?Q (map fst t))"
    and g: "df g = \<lparr>index_name = Some (Label COSMIC_ID), index = the (map_of t COSMIC_ID),
                    columns = frame_columns ?t'\<rparr>" "sep g = tab"
    by simp_all
  have ne: "TISSUE \<noteq> COSMIC_ID" "SAMPLE \<noteq> COSMIC_ID" "MSI \<noteq> COSMIC_ID"
    by (simp_all add: TISSUE_def SAMPLE_def MSI_def COSMIC_ID_def)
  have d: "distinct (map fst ?t')" "COSMIC_ID \<notin> set (map fst ?t')"
    using dist by (auto simp: distinct_map_filter)
  have "distinct (Label COSMIC_ID # map fst (frame_columns ?t'))"
    using d by (simp add: distinct_frame_columns member_frame_columns del: set_map)
  moreover have "list_all (text_has ?Q) (map fst (frame_columns ?t'))"
    by (simp add: frame_columns_def list_all_iff)
  moreover have "list_all (\<lambda>x. Label x \<in> set (map fst (frame_columns ?t'))) [TISSUE, SAMPLE, MSI]"
    using names ne by (auto simp: labels_frame_columns)
  ultimately show ?thesis
    using g by (simp add: genomic_features_format_def labels_def)
qed

lemma format_unique_tissue:
  assumes "genomic_features_format d"
  shows "unique_label d (Label TISSUE)"
proof -
  have "distinct (map fst (columns d))" and "Label TISSUE \<in> set (map fst (columns d))"
    using assms by (simp_all add: genomic_features_format_def labels_def)
  then have "columns_of (columns d) (Label TISSUE)
               = [(Label TISSUE, the (map_of (columns d) (Label TISSUE)))]"
    by (rule columns_of_distinct)
  then show ?thesis by (simp add: unique_label_def)
qed

lemma GenomicFeatures_init_file_wf:
  assumes "GenomicFeatures_init fs (PyStr filename) s = Inr g" and "fs filename tab = Some t"
    and "wf_table t"
  shows "wf_frame (df g) \<and> unique_label (df g) (Label (col_tissue g))"
proof -
  have dist: "distinct (map fst t)" and len: "\<And>c. c \<in> set t \<Longrightarrow> length (snd c) = nrows t"
    using assms(3) by (simp_all add: wf_table_def list_all_iff)
  have fmt: "genomic_features_format (df g)"
    using GenomicFeatures_init_file_format [OF assms] by simp
  let ?t' = "filter (\<lambda>c. \<not> startswith (fst c) ''Drug_'' \<and> fst c \<noteq> COSMIC_ID) t"
  from GenomicFeatures_init_file_result [OF assms]
  have cid: "COSMIC_ID \<in> set (map fst t)"
    and g: "index (df g) = the (map_of t COSMIC_ID)" "columns (df g) = frame_columns ?t'"
      "col_tissue g = TISSUE"
    by simp_all
  from cid obtain col where col: "(COSMIC_ID, col) \<in> set t" by auto
  then have m: "map_of t COSMIC_ID = Some col" using dist by simp
  have "length (snd c) = length (index (df g))" if "c \<in> set (columns (df g))" for c
  proof -
    from that obtain c' where "c' \<in> set t" "snd c = snd c'"
      unfolding g(2) by (auto simp: frame_columns_def)
    then have "length (snd c) = nrows t" using len by simp
    moreover have "length (index (df g)) = nrows t"
      using len [OF col] m g(1) by simp
    ultimately show ?thesis by simp
  qed
  then have "wf_frame (df g)" by (simp add: wf_frame_def list_all_iff)
  with format_unique_tissue [OF fmt] g(3) show ?thesis by simp
qed

section \<open>Lemmas on the report and on the store\<close>

lemma null_cells_by_column:
  "sum_list (map (\<lambda>c. length (filter isnull (snd c))) cs)
     = length (filter isnull (concat (map snd cs)))"
  by (induction cs) simp_all

lemma cells_count:
  "list_all (\<lambda>c. length (snd c) = n) cs \<Longrightarrow> length (concat (map snd cs)) = length cs * n"
  by (induction cs) simp_all

lemma length_fold_mutate: "length (fold (mutate a) ms h) = length h"
  by (induction ms arbitrary: h) (simp_all add: mutate_def)

lemma fold_mutate_other:
  "q \<noteq> a \<Longrightarrow> frame_at (fold (mutate a) ms h) q = frame_at h q"
  by (induction ms arbitrary: h) (simp_all add: mutate_def frame_at_def)

lemma alloc_fresh: "present h q \<Longrightarrow> q \<noteq> fst (alloc d h)"
  by (simp add: alloc_def present_def)

lemma alloc_keeps: "present h q \<Longrightarrow> frame_at (snd (alloc d h)) q = frame_at h q"
  by (simp add: alloc_def present_def frame_at_def nth_append)

lemma alloc_holds: "frame_at (snd (alloc d h)) (fst (alloc d h)) = d"
  by (simp add: alloc_def frame_at_def)

text \<open>The constructor on the store does what \<open>IC50_init\<close> does on values.\<close>

lemma IC50_init_store_refines:
  "IC50_init_store fs h x s = Inr (b, h') \<Longrightarrow> IC50_init fs (pyobj_of h x) s = Inr (ic50_of h' b)"
  "IC50_init_store fs h x s = Inl e \<Longrightarrow> IC50_init fs (pyobj_of h x) s = Inl e"
  by (cases x; auto simp: alloc_def frame_at_def mutate_def ic50_of_def copy_def nth_append
      split: sum.splits)+

section \<open>The properties\<close>

subsection \<open>Round trip through a file\<close>

text \<open>
  Claim C1, as amended. Writing the table of an IC50 object with \<^verbatim>\<open>to_csv\<close> and
  constructing an IC50 object from the written file, with the separator it was written
  with, gives the same dataframe (index name, index, columns and cells), provided the
  table has the form \<open>ic50_format\<close>. The same holds for a GenomicFeatures object whose
  table has the form \<open>genomic_features_format\<close>, when the file was written with the
  tabulation, the only separator its constructor reads with.
\<close>

theorem table_roundtrip:
  "(ic50_format (df r) \<and> reads_back fs (to_csv r filename sep_arg) \<longrightarrow>
      (\<exists>r'. IC50_init fs (PyStr filename) (w_sep (to_csv r filename sep_arg)) = Inr r'
            \<and> df r' = df r))
   \<and> (genomic_features_format (df g) \<and> w_sep (to_csv g filename' sep_arg') = tab
        \<and> reads_back fs' (to_csv g filename' sep_arg') \<longrightarrow>
      (\<exists>g'. GenomicFeatures_init fs' (PyStr filename') s' = Inr g' \<and> df g' = df g))"
  using IC50_roundtrip GenomicFeatures_roundtrip by blast

theorem table_roundtrip_witness:
  "ic50_format (df example_ic50)
   \<and> reads_back (fs_after (to_csv example_ic50 ''out.tsv'' None)) (to_csv example_ic50 ''out.tsv'' None)
   \<and> (\<exists>r'. IC50_init (fs_after (to_csv example_ic50 ''out.tsv'' None)) (PyStr ''out.tsv'') tab = Inr r'
            \<and> df r' = df example_ic50)
   \<and> genomic_features_format (df example_genomic_features)
   \<and> w_sep (to_csv example_genomic_features ''gf.tsv'' None) = tab
   \<and> reads_back (fs_after (to_csv example_genomic_features ''gf.tsv'' None))
        (to_csv example_genomic_features ''gf.tsv'' None)
   \<and> (\<exists>g'. GenomicFeatures_init (fs_after (to_csv example_genomic_features ''gf.tsv'' None))
              (PyStr ''gf.tsv'') '','' = Inr g'
            \<and> df g' = df example_genomic_features)"
proof -
  have a: "ic50_format (df example_ic50)"
    by (simp add: ic50_format_def example_ic50_def model_defs)
  have b: "reads_back (fs_after (to_csv example_ic50 ''out.tsv'' None)) (to_csv example_ic50 ''out.tsv'' None)"
    by (simp add: reads_back_def fs_after_def)
  have c: "genomic_features_format (df example_genomic_features)"
    by (simp add: genomic_features_format_def example_genomic_features_def model_defs)
  have d: "w_sep (to_csv example_genomic_features ''gf.tsv'' None) = tab"
    by (simp add: to_csv_def example_genomic_features_def)
  have e: "reads_back (fs_after (to_csv example_genomic_features ''gf.tsv'' None))
        (to_csv example_genomic_features ''gf.tsv'' None)"
    by (simp add: reads_back_def fs_after_def)
  have s: "w_sep (to_csv example_ic50 ''out.tsv'' None) = tab"
    by (simp add: to_csv_def example_ic50_def)
  show ?thesis
    using a b c d e
      table_roundtrip [of example_ic50 "fs_after (to_csv example_ic50 ''out.tsv'' None)" "''out.tsv''" None
        example_genomic_features "''gf.tsv''" None
        "fs_after (to_csv example_genomic_features ''gf.tsv'' None)" "'',''"]
    unfolding s by blast
qed

text \<open>
  Claim C1 as stated fails for an IC50 object made from a dataframe that has a column
  whose name does not start with \<^verbatim>\<open>Drug\<close>: the constructor drops that column when it
  reads the file back.
\<close>

theorem roundtrip_counterexample:
  "IC50_init example_fs (PyFrame example_frame) tab = Inr example_ic50_of_frame
   \<and> reads_back (fs_after (to_csv example_ic50_of_frame ''out.tsv'' None))
        (to_csv example_ic50_of_frame ''out.tsv'' None)
   \<and> IC50_init (fs_after (to_csv example_ic50_of_frame ''out.tsv'' None)) (PyStr ''out.tsv'') tab
        = Inr example_ic50_reread
   \<and> df example_ic50_reread \<noteq> df example_ic50_of_frame"
  by (simp add: model_defs fs_after_def example_frame_def example_ic50_of_frame_def
      example_ic50_reread_def)

subsection \<open>Required columns and supported inputs\<close>

text \<open>
  Claim C2. A file whose header has no column \<^verbatim>\<open>COSMIC ID\<close> makes both constructors
  raise: \<^verbatim>\<open>IC50\<close> raises \<^verbatim>\<open>KeyError\<close> when it selects the column, \<^verbatim>\<open>GenomicFeatures\<close>
  fails its assertion (a file without a header line raises in \<^verbatim>\<open>read_csv\<close>). The header
  is the one that the parser yields with the separator the constructor reads with.
\<close>

theorem missing_COSMIC_ID_raises:
  assumes "COSMIC_ID \<notin> set (map fst t)"
  shows "(fs filename s = Some t \<longrightarrow>
            IC50_init fs (PyStr filename) s = Inl (if t = [] then EmptyDataError else KeyError))
       \<and> (fs filename tab = Some t \<longrightarrow>
            GenomicFeatures_init fs (PyStr filename) s
              = Inl (if t = [] then EmptyDataError else AssertionError))"
  using IC50_init_file_absent [of fs filename s t] GenomicFeatures_init_file_absent [of fs filename t s]
    assms
  by blast

theorem missing_COSMIC_ID_raises_witness:
  "COSMIC_ID \<notin> set (map fst example_no_cosmic_table)
   \<and> example_fs ''no_cosmic.tsv'' tab = Some example_no_cosmic_table
   \<and> IC50_init example_fs (PyStr ''no_cosmic.tsv'') tab = Inl KeyError
   \<and> GenomicFeatures_init example_fs (PyStr ''no_cosmic.tsv'') tab = Inl AssertionError"
proof -
  have a: "COSMIC_ID \<notin> set (map fst example_no_cosmic_table)"
    by (simp add: example_no_cosmic_table_def COSMIC_ID_def)
  have b: "example_fs ''no_cosmic.tsv'' tab = Some example_no_cosmic_table"
    by (simp add: example_fs_def share_file_def)
  have c: "example_no_cosmic_table \<noteq> []"
    by (simp add: example_no_cosmic_table_def)
  show ?thesis
    using a b c missing_COSMIC_ID_raises [OF a, of example_fs "''no_cosmic.tsv''" tab]
    by simp
qed

text \<open>
  Claim C3, as amended. For a dataframe whose column labels are strings, none of them
  \<^verbatim>\<open>df\<close>, and for a file with distinct header fields among which \<^verbatim>\<open>COSMIC ID\<close>: if one of
  the three compulsory columns is missing once the columns starting with \<^verbatim>\<open>Drug_\<close> are
  removed, the constructor of \<^verbatim>\<open>GenomicFeatures\<close> fails an assertion; otherwise it
  succeeds and the three columns are in \<^verbatim>\<open>df\<close>.
\<close>

theorem required_columns:
  "(list_all is_str (labels d) \<and> Label ''df'' \<notin> set (labels d) \<longrightarrow>
      (if Label ` set [TISSUE, SAMPLE, MSI]
            \<subseteq> set (filter (text_has (\<lambda>x. \<not> startswith x ''Drug_'')) (labels d))
       then \<exists>g. GenomicFeatures_init fs (PyFrame d) s = Inr g
                \<and> Label ` set [TISSUE, SAMPLE, MSI] \<subseteq> set (labels (df g))
       else GenomicFeatures_init fs (PyFrame d) s = Inl AssertionError))
   \<and> (fs filename tab = Some t \<and> wf_table t \<and> COSMIC_ID \<in> set (map fst t) \<longrightarrow>
      (if set [TISSUE, SAMPLE, MSI] \<subseteq> set (filter (\<lambda>x. \<not> startswith x ''Drug_'') (map fst t))
       then \<exists>g. GenomicFeatures_init fs (PyStr filename) s = Inr g
                \<and> Label ` set [TISSUE, SAMPLE, MSI] \<subseteq> set (labels (df g))
       else GenomicFeatures_init fs (PyStr filename) s = Inl AssertionError))"
proof (intro conjI impI)
  assume h: "list_all is_str (labels d) \<and> Label ''df'' \<notin> set (labels d)"
  let ?Q = "text_has (\<lambda>x. \<not> startswith x ''Drug_'')"
  have "Label ''df'' \<notin> set (map fst (columns d))" using h by (simp add: labels_def)
  then have "columns_of (columns d) (Label ''df'') = []" by (rule columns_of_absent)
  then have ld: "GenomicFeatures_load fs (PyFrame d) = Inr d" by (simp add: self_df_def)
  have str: "list_all is_str (labels d)" using h by simp
  have "set (labels (d\<lparr>columns := concat (map (columns_of (columns d)) (filter ?Q (labels d)))\<rparr>))
        = set (filter ?Q (labels d))"
    by (rule labels_without_drug)
  then show "if Label ` set [TISSUE, SAMPLE, MSI] \<subseteq> set (filter ?Q (labels d))
       then \<exists>g. GenomicFeatures_init fs (PyFrame d) s = Inr g
                \<and> Label ` set [TISSUE, SAMPLE, MSI] \<subseteq> set (labels (df g))
       else GenomicFeatures_init fs (PyFrame d) s = Inl AssertionError"
    using GenomicFeatures_init_of_load [OF ld _ str, of s]
    by simp
next
  assume a: "fs filename tab = Some t \<and> wf_table t \<and> COSMIC_ID \<in> set (map fst t)"
  let ?Q = "\<lambda>x. \<not> startswith x ''Drug_''"
  have dist: "distinct (map fst t)" using a by (simp add: wf_table_def)
  have init: "GenomicFeatures_init fs (PyStr filename) s =
     (if set [TISSUE, SAMPLE, MSI] \<subseteq> set (filter ?Q (map fst t))
      then Inr \<lparr>sep = tab,
                df = \<lparr>index_name = Some (Label COSMIC_ID), index = the (map_of t COSMIC_ID),
                      columns = frame_columns
                        (filter (\<lambda>c. ?Q (fst c) \<and> fst c \<noteq> COSMIC_ID) t)\<rparr>,
                col_tissue = TISSUE, col_sample = SAMPLE, col_msi = MSI\<rparr>
      else Inl AssertionError)"
    using a dist by (intro GenomicFeatures_init_file) auto
  have ne: "TISSUE \<noteq> COSMIC_ID" "SAMPLE \<noteq> COSMIC_ID" "MSI \<noteq> COSMIC_ID"
    by (simp_all add: TISSUE_def SAMPLE_def MSI_def COSMIC_ID_def)
  let ?t' = "filter (\<lambda>c. ?Q (fst c) \<and> fst c \<noteq> COSMIC_ID) t"
  let ?g = "\<lparr>sep = tab,
            df = \<lparr>index_name = Some (Label COSMIC_ID), index = the (map_of t COSMIC_ID),
                  columns = frame_columns ?t'\<rparr>,
            col_tissue = TISSUE, col_sample = SAMPLE, col_msi = MSI\<rparr>"
  have lab: "set (labels (df ?g)) = Label ` set (map fst ?t')"
    by (simp add: labels_def frame_columns_def image_image)
  show "if set [TISSUE, SAMPLE, MSI] \<subseteq> set (filter ?Q (map fst t))
       then \<exists>g. GenomicFeatures_init fs (PyStr filename) s = Inr g
                \<and> Label ` set [TISSUE, SAMPLE, MSI] \<subseteq> set (labels (df g))
       else GenomicFeatures_init fs (PyStr filename) s = Inl AssertionError"
  proof (cases "set [TISSUE, SAMPLE, MSI] \<subseteq> set (filter ?Q (map fst t))")
    case True
    then have "set [TISSUE, SAMPLE, MSI] \<subseteq> set (map fst ?t')"
      using ne by auto
    then have "Label ` set [TISSUE, SAMPLE, MSI] \<subseteq> set (labels (df ?g))"
      unfolding lab by (rule image_mono)
    moreover have "GenomicFeatures_init fs (PyStr filename) s = Inr ?g"
      using init True by (simp only: if_True)
    ultimately show ?thesis using True by (simp only: if_True) blast
  next
    case False
    then show ?thesis using init by (simp only: if_False)
  qed
qed

theorem required_columns_witness:
  "list_all is_str (labels (df example_genomic_features))
   \<and> Label ''df'' \<notin> set (labels (df example_genomic_features))
   \<and> (\<exists>g. GenomicFeatures_init example_fs (PyFrame (df example_genomic_features)) tab = Inr g
           \<and> Label ` set [TISSUE, SAMPLE, MSI] \<subseteq> set (labels (df g)))
   \<and> example_fs share_file tab = Some example_features_table
   \<and> wf_table example_features_table
   \<and> COSMIC_ID \<in> set (map fst example_features_table)
   \<and> (\<exists>g. GenomicFeatures_init example_fs (PyStr share_file) tab = Inr g
           \<and> Label ` set [TISSUE, SAMPLE, MSI] \<subseteq> set (labels (df g)))
   \<and> list_all is_str (labels example_frame)
   \<and> Label ''df'' \<notin> set (labels example_frame)
   \<and> GenomicFeatures_init example_fs (PyFrame example_frame) tab = Inl AssertionError"
proof -
  have a: "list_all is_str (labels (df example_genomic_features))"
    "Label ''df'' \<notin> set (labels (df example_genomic_features))"
    by (simp_all add: labels_def example_genomic_features_def)
  have b: "Label ` set [TISSUE, SAMPLE, MSI]
      \<subseteq> set (filter (text_has (\<lambda>x. \<not> startswith x ''Drug_''))
                (labels (df example_genomic_features)))"
    by (simp add: labels_def example_genomic_features_def TISSUE_def SAMPLE_def MSI_def
        startswith_def)
  have c: "example_fs share_file tab = Some example_features_table"
    by (simp add: example_fs_def share_file_def)
  have d: "wf_table example_features_table"
    by (simp add: wf_table_def example_features_table_def nrows_def)
  have e: "COSMIC_ID \<in> set (map fst example_features_table)"
    by (simp add: example_features_table_def COSMIC_ID_def)
  have f: "set [TISSUE, SAMPLE, MSI]
      \<subseteq> set (filter (\<lambda>x. \<not> startswith x ''Drug_'') (map fst example_features_table))"
    by (simp add: example_features_table_def TISSUE_def SAMPLE_def MSI_def startswith_def)
  have g: "list_all is_str (labels example_frame)" "Label ''df'' \<notin> set (labels example_frame)"
    by (simp_all add: labels_def example_frame_def)
  have h: "\<not> Label ` set [TISSUE, SAMPLE, MSI]
      \<subseteq> set (filter (text_has (\<lambda>x. \<not> startswith x ''Drug_'')) (labels example_frame))"
    by (simp add: labels_def example_frame_def TISSUE_def SAMPLE_def MSI_def startswith_def)
  show ?thesis
    using a b c d e f g h
      required_columns [of "df example_genomic_features" example_fs tab share_file
        example_features_table]
      required_columns [of example_frame example_fs tab share_file example_features_table]
    by (simp only: if_True if_False simp_thms)
qed

text \<open>
  Claim C3 as stated fails for three inputs that have the three compulsory columns. A
  file without the column \<^verbatim>\<open>COSMIC ID\<close> fails the assertion on \<^verbatim>\<open>COSMIC ID\<close>. A dataframe
  with a column label that is not a string raises \<^verbatim>\<open>AttributeError\<close> in the test on
  \<^verbatim>\<open>Drug_\<close>, and so does a dataframe with a column \<^verbatim>\<open>df\<close>, which the constructor takes
  for the \<^verbatim>\<open>df\<close> attribute of a reader.
\<close>

theorem required_columns_counterexample:
  "example_fs ''no_cosmic.tsv'' tab = Some example_no_cosmic_table
   \<and> map fst example_no_cosmic_table = [TISSUE, SAMPLE, MSI]
   \<and> GenomicFeatures_init example_fs (PyStr ''no_cosmic.tsv'') tab = Inl AssertionError
   \<and> labels example_number_label_frame = [Label TISSUE, Label SAMPLE, Label MSI, NonStr ''7'']
   \<and> GenomicFeatures_init example_fs (PyFrame example_number_label_frame) tab = Inl AttributeError
   \<and> labels example_df_label_frame = [Label TISSUE, Label SAMPLE, Label MSI, Label ''df'']
   \<and> GenomicFeatures_init example_fs (PyFrame example_df_label_frame) tab = Inl AttributeError"
  by (simp add: model_defs example_fs_def example_no_cosmic_table_def
      example_number_label_frame_def example_df_label_frame_def column_error_def series_loc_def)




subsection \<open>What IC50 keeps of a file\<close>

text \<open>
  Claim C10. From a file with a column \<^verbatim>\<open>COSMIC ID\<close> the constructor of \<^verbatim>\<open>IC50\<close> makes
  a table indexed by that column, under that name, whose columns are exactly the columns
  of the file whose name starts with \<^verbatim>\<open>Drug\<close>, in the order of the file.
\<close>

theorem IC50_from_file:
  assumes "fs filename s = Some t" and "wf_table t" and "COSMIC_ID \<in> set (map fst t)"
  shows "\<exists>r. IC50_init fs (PyStr filename) s = Inr r
           \<and> index_name (df r) = Some (Label COSMIC_ID)
           \<and> index (df r) = the (map_of t COSMIC_ID)
           \<and> columns (df r) = frame_columns (filter (\<lambda>c. startswith (fst c) ''Drug'') t)
           \<and> drugIds r = map Label (filter (\<lambda>x. startswith x ''Drug'') (map fst t))"
proof -
  have "distinct (map fst t)" using assms(2) by (simp add: wf_table_def)
  from IC50_from_file_gen [of fs filename s t, OF assms(1) this assms(3)]
  show ?thesis by (auto simp: drugIds_def labels_def labels_frame_columns filter_map comp_def)
qed

theorem IC50_from_file_witness:
  "example_fs ''ic50.tsv'' tab = Some example_ic50_table
   \<and> wf_table example_ic50_table
   \<and> COSMIC_ID \<in> set (map fst example_ic50_table)
   \<and> IC50_init example_fs (PyStr ''ic50.tsv'') tab = Inr example_ic50_from_file
   \<and> drugIds example_ic50_from_file = [Label ''Drug_1_IC50'', Label ''Drug_20_IC50'']"
proof -
  have a: "example_fs ''ic50.tsv'' tab = Some example_ic50_table"
    by (simp add: example_fs_def)
  have b: "wf_table example_ic50_table"
    by (simp add: wf_table_def example_ic50_table_def nrows_def)
  have c: "COSMIC_ID \<in> set (map fst example_ic50_table)"
    by (simp add: example_ic50_table_def COSMIC_ID_def)
  have d: "IC50_init example_fs (PyStr ''ic50.tsv'') tab = Inr example_ic50_from_file"
    by (simp add: model_defs example_fs_def example_ic50_table_def example_ic50_from_file_def)
  have e: "map Label (filter (\<lambda>x. startswith x ''Drug'') (map fst example_ic50_table))
           = [Label ''Drug_1_IC50'', Label ''Drug_20_IC50'']"
    by (simp add: example_ic50_table_def startswith_def)
  show ?thesis
    using a b c d IC50_from_file [of example_fs "''ic50.tsv''" tab example_ic50_table, OF a b c]
    unfolding e by auto
qed

subsection \<open>Filtering by tissue\<close>







text \<open>
  Claim C7 as stated fails for the object that the constructor makes of a dataframe with
  the label of the tissue column twice: its feature column \<^verbatim>\<open>BRAF_mut\<close> holds the
  nonnegative numbers 0 and 0, both calls raise \<^verbatim>\<open>ValueError\<close> before \<^verbatim>\<open>_cleanup\<close> runs,
  and the column of zeros is still there afterwards.
\<close>

theorem zero_column_pruning_counterexample:
  "GenomicFeatures_init example_fs (PyFrame example_two_tissues_frame) tab
     = Inr example_two_tissues
   \<and> numeric_features example_two_tissues
   \<and> keep_tissue_in example_two_tissues (TissueList [Str ''lung''])
       = (example_two_tissues, Some ValueError)
   \<and> drop_tissue_in example_two_tissues (TissueList [Str ''lung''])
       = (example_two_tissues, Some ValueError)
   \<and> (Label ''BRAF_mut'', [Num 0, Num 0]) \<in> set (columns (df example_two_tissues))
   \<and> \<not> special example_two_tissues (Label ''BRAF_mut'')
   \<and> \<not> has_nonzero [Num 0, Num 0]"
proof -
  have a: "GenomicFeatures_init example_fs (PyFrame example_two_tissues_frame) tab
       = Inr example_two_tissues"
    by (simp add: model_defs example_two_tissues_frame_def example_two_tissues_def)
  have b: "numeric_features example_two_tissues"
    by (simp add: numeric_features_def special_def is_number_def example_two_tissues_def)
  have c: "keep_tissue_in example_two_tissues (TissueList [Str ''lung''])
       = (example_two_tissues, Some ValueError)"
    by (simp add: keep_tissue_in_def getitem_def columns_of_def labels_def
        example_two_tissues_def)
  have d: "drop_tissue_in example_two_tissues (TissueList [Str ''lung''])
       = (example_two_tissues, Some ValueError)"
    by (simp add: drop_tissue_in_def getitem_def columns_of_def labels_def
        example_two_tissues_def)
  have e: "(Label ''BRAF_mut'', [Num 0, Num 0]) \<in> set (columns (df example_two_tissues))
       \<and> \<not> special example_two_tissues (Label ''BRAF_mut'')
       \<and> \<not> has_nonzero [Num 0, Num 0]"
    by (simp add: special_def has_nonzero_def example_two_tissues_def)
  from a b c d e show ?thesis by blast
qed

text \<open>
  Claim C7, as amended. For a GenomicFeatures object with exactly one tissue column whose
  feature columns hold numbers (the nonnegative ones of binary features among them),
  \<^verbatim>\<open>drop_tissue_in\<close> and \<^verbatim>\<open>keep_tissue_in\<close> return without an exception; afterwards every
  column that is not one of the three informative columns has a cell other than zero, so
  no feature column of zeros remains, and the informative columns are all still there,
  whatever their cells.
\<close>

theorem zero_column_pruning:
  assumes "unique_label (df g) (Label (col_tissue g))" and "numeric_features g"
    and "r = drop_tissue_in g ts \<or> r = keep_tissue_in g ts"
  shows "snd r = None
       \<and> list_all (\<lambda>c. special g (fst c) \<or> has_nonzero (snd c)) (columns (df (fst r)))
       \<and> filter (special g) (labels (df (fst r))) = filter (special g) (labels (df g))"
proof -
  obtain c where c: "columns_of (columns (df g)) (Label (col_tissue g)) = [c]"
    using unique_labelD [OF assms(1)] by blast
  obtain m where r: "r = cleanup (g\<lparr>df := mask_rows (df g) m\<rparr>) 0"
    using assms(3) drop_tissue_in_unique [OF c] keep_tissue_in_unique [OF c] by metis
  show ?thesis
    using cleanup_prunes [OF numeric_features_mask [OF assms(2), of m]]
    unfolding r by simp
qed

theorem zero_column_pruning_witness:
  "unique_label (df example_genomic_features) (Label (col_tissue example_genomic_features))
   \<and> numeric_features example_genomic_features
   \<and> keep_tissue_in example_genomic_features (TissueList [Str ''lung'', Str ''skin''])
       = (example_lung_only, None)
   \<and> list_all (\<lambda>c. special example_genomic_features (fst c) \<or> has_nonzero (snd c))
        (columns (df example_lung_only))
   \<and> labels (df example_lung_only)
       = [Label ''Tissue Factor Value'', Label ''Sample Name'',
          Label ''MS-instability Factor Value'', Label ''BRAF_mut'']
   \<and> \<not> has_nonzero [Num 0, Num 0]"
proof -
  have l: "labels (df example_lung_only)
       = [Label ''Tissue Factor Value'', Label ''Sample Name'',
          Label ''MS-instability Factor Value'', Label ''BRAF_mut'']"
    by (simp add: labels_def example_lung_only_def)
  have z: "\<not> has_nonzero [Num 0, Num 0]"
    by (simp add: has_nonzero_def)
  show ?thesis
    using zero_column_pruning [OF example_unique example_numeric,
        of "keep_tissue_in example_genomic_features (TissueList [Str ''lung'', Str ''skin''])"
           "TissueList [Str ''lung'', Str ''skin'']"]
      example_unique example_numeric l z
    unfolding example_keep_lung by simp
qed

subsection \<open>The report of IC50\<close>

text \<open>
  Claim C8. For an IC50 object with at least one column and one row, the reported
  percentage of NA is the number of missing cells of \<^verbatim>\<open>df\<close> divided by the number of
  columns times the number of rows (as an exact fraction; the rounding to a float and the
  text of the number are not modelled), the reported number of drugs is the number of
  columns and the reported number of cell lines is the number of rows. In a well-formed
  table the divisor is the number of cells.
\<close>

theorem percentage_of_NA:
  assumes "0 < length (columns (df r))" and "0 < len (df r)"
  shows "percentage_of_NA (IC50_str r)
           = Some (of_nat (null_cells (df r)) / of_nat (length (columns (df r)) * len (df r)))
       \<and> number_of_drugs (IC50_str r) = length (columns (df r))
       \<and> number_of_cell_lines (IC50_str r) = len (df r)
       \<and> (wf_frame (df r) \<longrightarrow> length (cells (df r)) = length (columns (df r)) * len (df r))"
proof -
  have n: "isnull_sum_sum (df r) = null_cells (df r)"
    by (simp add: isnull_sum_sum_def null_cells_def cells_def null_cells_by_column)
  have w: "wf_frame (df r) \<longrightarrow> length (cells (df r)) = length (columns (df r)) * len (df r)"
    by (simp add: wf_frame_def cells_def len_def cells_count)
  show ?thesis
    using assms n w by (simp add: IC50_str_def Let_def drugIds_def labels_def)
qed

theorem percentage_of_NA_witness:
  "0 < length (columns (df example_ic50)) \<and> 0 < len (df example_ic50)
   \<and> percentage_of_NA (IC50_str example_ic50) = Some (1 / 4)
   \<and> null_cells (df example_ic50) = 1
   \<and> number_of_drugs (IC50_str example_ic50) = 2
   \<and> number_of_cell_lines (IC50_str example_ic50) = 2"
proof -
  have a: "0 < length (columns (df example_ic50))" by (simp add: example_ic50_def)
  have b: "0 < len (df example_ic50)" by (simp add: example_ic50_def len_def)
  have c: "null_cells (df example_ic50) = 1"
    by (simp add: null_cells_def cells_def isnull_def example_ic50_def)
  have d: "length (columns (df example_ic50)) = 2" "len (df example_ic50) = 2"
    by (simp_all add: example_ic50_def len_def)
  show ?thesis
    using percentage_of_NA [OF a b] a b c d by simp
qed

subsection \<open>No sharing between objects\<close>

text \<open>
  Claim C9. Constructing an IC50 object from an IC50 instance or from a dataframe
  succeeds and gives the new object a dataframe of its own, with the content of the
  source: whatever changes are then made in place to the dataframe of the new object,
  every dataframe that existed before, the source among them, keeps its content.
\<close>

theorem IC50_copy_not_shared:
  assumes "present h p" and "x = RefFrame p \<or> (\<exists>a. x = RefIC50 a \<and> df_ref a = p)"
  shows "\<exists>b h'. IC50_init_store fs h x s = Inr (b, h')
           \<and> df_ref b \<noteq> p
           \<and> frame_at h' (df_ref b) = frame_at h p
           \<and> (\<forall>ms q. present h q \<longrightarrow>
                 frame_at (fold (mutate (df_ref b)) ms h') q = frame_at h q)"
proof -
  let ?d = "copy (frame_at h p)"
  let ?b = "\<lparr>obj_sep = s, df_ref = fst (alloc ?d h), rawdf_ref = None\<rparr>"
  let ?h' = "snd (alloc ?d h)"
  have init: "IC50_init_store fs h x s = Inr (?b, ?h')"
    using assms(2) by (auto simp: alloc_def)
  have fresh: "df_ref ?b \<noteq> p"
    using alloc_fresh [OF assms(1), of ?d] by auto
  have same: "frame_at ?h' (df_ref ?b) = frame_at h p"
    by (simp add: alloc_holds copy_def)
  have frame: "frame_at (fold (mutate (df_ref ?b)) ms ?h') q = frame_at h q"
    if "present h q" for ms q
    using that alloc_fresh [OF that, of ?d] alloc_keeps [OF that, of ?d]
    by (simp add: fold_mutate_other)
  show ?thesis
    using init fresh same frame by blast
qed

theorem IC50_copy_not_shared_witness:
  "present example_store 0
   \<and> (\<exists>b h'. IC50_init_store example_fs example_store (RefFrame 0) tab = Inr (b, h')
          \<and> df_ref b \<noteq> 0
          \<and> frame_at h' (df_ref b) = example_frame
          \<and> frame_at (fold (mutate (df_ref b)) [\<lambda>d. d\<lparr>columns := []\<rparr>] h') 0 = example_frame)
   \<and> (\<exists>b h'. IC50_init_store example_fs example_store
                 (RefIC50 \<lparr>obj_sep = tab, df_ref = 0, rawdf_ref = None\<rparr>) tab = Inr (b, h')
          \<and> df_ref b \<noteq> 0
          \<and> frame_at (fold (mutate (df_ref b)) [\<lambda>d. d\<lparr>columns := []\<rparr>] h') 0 = example_frame)"
proof -
  have p: "present example_store 0"
    by (simp add: present_def example_store_def)
  have f: "frame_at example_store 0 = example_frame"
    by (simp add: frame_at_def example_store_def)
  have a: "RefFrame 0 = RefFrame 0 \<or> (\<exists>a. RefFrame 0 = RefIC50 a \<and> df_ref a = 0)"
    by simp
  have b: "RefIC50 \<lparr>obj_sep = tab, df_ref = 0, rawdf_ref = None\<rparr> = RefFrame 0
           \<or> (\<exists>a. RefIC50 \<lparr>obj_sep = tab, df_ref = 0, rawdf_ref = None\<rparr> = RefIC50 a \<and> df_ref a = 0)"
    by simp
  from IC50_copy_not_shared [OF p a, of example_fs tab]
  obtain b1 h1 where 1:
    "IC50_init_store example_fs example_store (RefFrame 0) tab = Inr (b1, h1)"
    "df_ref b1 \<noteq> 0" "frame_at h1 (df_ref b1) = frame_at example_store 0"
    "\<And>ms q. present example_store q \<Longrightarrow>
       frame_at (fold (mutate (df_ref b1)) ms h1) q = frame_at example_store q"
    by blast
  from IC50_copy_not_shared [OF p b, of example_fs tab]
  obtain b2 h2 where 2:
    "IC50_init_store example_fs example_store
       (RefIC50 \<lparr>obj_sep = tab, df_ref = 0, rawdf_ref = None\<rparr>) tab = Inr (b2, h2)"
    "df_ref b2 \<noteq> 0"
    "\<And>ms q. present example_store q \<Longrightarrow>
       frame_at (fold (mutate (df_ref b2)) ms h2) q = frame_at example_store q"
    by blast
  show ?thesis
    using p 1(1,2) 1(3) [unfolded f] 1(4) [OF p, unfolded f] 2(1,2) 2(3) [OF p, unfolded f]
    by blast
qed

end
